theory Spec2Isabelle
  imports Complex_Main "HOL-Library.Word"
begin

unbundle bit_operations_syntax

section \<open>The broker object and its environment\<close>

text \<open>
  A shallow embedding of \<^verbatim>\<open>adbconnection/adbconnection.cc\<close>. File descriptors are
  \<^typ>\<open>int\<close>, with \<open>-1\<close> the empty \<^verbatim>\<open>unique_fd\<close>. Everything the code asks of the
  operating system (what \<^verbatim>\<open>poll\<close>, \<^verbatim>\<open>recv\<close>, \<^verbatim>\<open>recvmsg\<close>, \<^verbatim>\<open>sendmsg\<close>, \<^verbatim>\<open>dup\<close>,
  \<^verbatim>\<open>writev\<close>, \<^verbatim>\<open>connect\<close> return, and what an uninitialised stack buffer holds) is
  an explicit argument of the operation that asks for it. What the code does to the outside
  world is appended to the \<open>effects\<close> list of the state.
\<close>

datatype severity = WARNING | ERROR

datatype effect =
    EventFdRead                         \<comment> \<open>\<^verbatim>\<open>ScopedEventFdLock\<close> constructor: \<^verbatim>\<open>read\<close> of the write eventfd\<close>
  | EventFdWrite                        \<comment> \<open>\<^verbatim>\<open>~ScopedEventFdLock\<close>: \<^verbatim>\<open>write\<close> of the write eventfd\<close>
  | Close int                           \<comment> \<open>\<^verbatim>\<open>close(fd)\<close> from a \<^verbatim>\<open>unique_fd\<close>\<close>
  | Writev int "8 word list" "8 word list"  \<comment> \<open>\<^verbatim>\<open>writev(fd, {header, payload}, 2)\<close>\<close>
  | SendMsg int "int list"              \<comment> \<open>\<^verbatim>\<open>sendmsg\<close> with \<^verbatim>\<open>SCM_RIGHTS\<close> descriptors\<close>
  | AttachAgent string                  \<comment> \<open>\<^verbatim>\<open>Runtime::AttachAgent(arg)\<close>\<close>
  | Usleep int                          \<comment> \<open>\<^verbatim>\<open>usleep(microseconds)\<close>\<close>
  | Log severity                        \<comment> \<open>\<^verbatim>\<open>LOG(WARNING)\<close>, \<^verbatim>\<open>LOG(ERROR)\<close>, \<^verbatim>\<open>PLOG(...)\<close>\<close>
  | DcheckFailed nat                    \<comment> \<open>the \<^verbatim>\<open>DCHECK\<close> at this source line found its condition false\<close>

text \<open>
  The members of \<^verbatim>\<open>AdbConnectionState\<close> that the code below reads or writes, followed by
  two pieces of the environment: \<open>write_event_count\<close> is the kernel counter of the eventfd
  behind \<^verbatim>\<open>adb_write_event_fd_\<close>, and \<open>effects\<close> is the log of what has been done.
\<close>

record AdbConnectionState =
  agent_name :: string
  sleep_event_fd :: int
  control_sock :: int
  local_agent_control_sock :: int
  remote_agent_control_sock :: int
  adb_connection_socket :: int
  adb_write_event_fd :: int
  shutting_down :: bool
  agent_loaded :: bool
  agent_listening :: bool
  agent_has_socket :: bool
  sent_agent_fds :: bool
  next_ddm_id :: "32 word"
  write_event_count :: "64 word"
  effects :: "effect list"

definition emit :: "effect \<Rightarrow> AdbConnectionState \<Rightarrow> AdbConnectionState" where
  "emit e s = s\<lparr>effects := effects s @ [e]\<rparr>"

definition kEventfdLocked :: "64 word" where
  "kEventfdLocked = 0"

definition kEventfdUnlocked :: "64 word" where
  "kEventfdUnlocked = 1"

text \<open>
  Modelled from the spec: the header \<^verbatim>\<open>jdwp/jdwp_priv.h\<close> with \<^verbatim>\<open>kJDWPHeaderLen\<close>,
  \<^verbatim>\<open>kJDWPDdmCmdSet\<close> and \<^verbatim>\<open>kJDWPDdmCmd\<close> is not among the sources. The spec's packet layout
  has the JDWP command header (length, id, flags, command set, command) at offsets 0 to 10
  and the chunk type right behind it at offset 11, command set \<open>0xC7\<close> and command \<open>1\<close>.
  These are also the 11 bytes that \<^verbatim>\<open>PublishDdmData\<close> writes before the chunk type.
\<close>

definition kJDWPHeaderLen :: nat where
  "kJDWPHeaderLen = 11"

definition kJDWPDdmCmdSet :: "8 word" where
  "kJDWPDdmCmdSet = 0xC7"

definition kJDWPDdmCmd :: "8 word" where
  "kJDWPDdmCmd = 1"

text \<open>
  The constructor. Its initialiser list names neither \<^verbatim>\<open>agent_has_socket_\<close> nor
  \<^verbatim>\<open>sent_agent_fds_\<close>, and nothing else writes them before the loop reads them: the two
  flags start with whatever the memory of the object holds, which the last two arguments
  stand for.
\<close>

definition AdbConnectionState_new :: "string \<Rightarrow> bool \<Rightarrow> bool \<Rightarrow> AdbConnectionState" where
  "AdbConnectionState_new name has_socket_mem sent_fds_mem =
     \<lparr>agent_name = name,
      sleep_event_fd = -1,
      control_sock = -1,
      local_agent_control_sock = -1,
      remote_agent_control_sock = -1,
      adb_connection_socket = -1,
      adb_write_event_fd = -1,
      shutting_down = False,
      agent_loaded = False,
      agent_listening = False,
      agent_has_socket = has_socket_mem,
      sent_agent_fds = sent_fds_mem,
      next_ddm_id = 1,
      write_event_count = 0,
      effects = []\<rparr>"

text \<open>
  \<^verbatim>\<open>StartDebuggerThreads\<close>, as far as the descriptors go: the two eventfds (the write eventfd
  created with the value \<^verbatim>\<open>kEventfdUnlocked\<close>) and the agent socketpair; the four arguments
  are the descriptor numbers the kernel hands out. Thread creation and the registration of
  the runtime callbacks are not modelled.
\<close>

definition StartDebuggerThreads ::
  "int \<Rightarrow> int \<Rightarrow> int \<Rightarrow> int \<Rightarrow> AdbConnectionState \<Rightarrow> AdbConnectionState" where
  "StartDebuggerThreads sleep_fd write_fd local_fd remote_fd s =
     s\<lparr>sleep_event_fd := sleep_fd,
       adb_write_event_fd := write_fd,
       write_event_count := kEventfdUnlocked,
       local_agent_control_sock := local_fd,
       remote_agent_control_sock := remote_fd\<rparr>"

section \<open>The write interlock\<close>

text \<open>
  \<^verbatim>\<open>ScopedEventFdLock\<close>: the constructor reads the eventfd, which blocks while the counter
  is 0 and otherwise returns the counter and resets it to 0; the destructor writes the value
  read back, which adds it to the counter. A thread that blocks for ever is \<open>None\<close>.
\<close>

definition ScopedEventFdLock :: "AdbConnectionState \<Rightarrow> (64 word \<times> AdbConnectionState) option" where
  "ScopedEventFdLock s =
     (if write_event_count s = 0 then None
      else Some (write_event_count s, emit EventFdRead (s\<lparr>write_event_count := 0\<rparr>)))"

definition ScopedEventFdLock_release :: "64 word \<Rightarrow> AdbConnectionState \<Rightarrow> AdbConnectionState" where
  "ScopedEventFdLock_release data s =
     emit EventFdWrite (s\<lparr>write_event_count := write_event_count s + data\<rparr>)"

text \<open>\<^verbatim>\<open>unique_fd::reset()\<close> on \<^verbatim>\<open>adb_connection_socket_\<close>: close what is held, hold nothing.\<close>

definition reset_adb_connection_socket :: "AdbConnectionState \<Rightarrow> AdbConnectionState" where
  "reset_adb_connection_socket s =
     (if adb_connection_socket s \<noteq> -1
      then (emit (Close (adb_connection_socket s)) s)\<lparr>adb_connection_socket := -1\<rparr>
      else s)"

definition CloseFds :: "AdbConnectionState \<Rightarrow> AdbConnectionState option" where
  "CloseFds s =
     (case ScopedEventFdLock s of
        None \<Rightarrow> None
      | Some (lk, s1) \<Rightarrow> Some (ScopedEventFdLock_release lk (reset_adb_connection_socket s1)))"

section \<open>DDM packets\<close>

definition NextDdmId :: "AdbConnectionState \<Rightarrow> 32 word \<times> AdbConnectionState" where
  "NextDdmId s = (next_ddm_id s OR 0x80000000, s\<lparr>next_ddm_id := next_ddm_id s + 1\<rparr>)"

text \<open>
  \<^verbatim>\<open>htonl\<close> on the little-endian hosts the runtime is built for: the four bytes swapped.
  A \<^verbatim>\<open>uint32_t\<close> stored through \<^verbatim>\<open>reinterpret_cast<uint32_t*>\<close> lands least significant
  byte first.
\<close>

definition htonl :: "32 word \<Rightarrow> 32 word" where
  "htonl x = push_bit 24 (take_bit 8 x) OR push_bit 16 (take_bit 8 (drop_bit 8 x))
             OR push_bit 8 (take_bit 8 (drop_bit 16 x)) OR take_bit 8 (drop_bit 24 x)"

definition store_u32 :: "8 word list \<Rightarrow> nat \<Rightarrow> 32 word \<Rightarrow> 8 word list" where
  "store_u32 mem off v =
     mem[off := ucast v, off + 1 := ucast (drop_bit 8 v),
         off + 2 := ucast (drop_bit 16 v), off + 3 := ucast (drop_bit 24 v)]"

definition kDdmPacketHeaderSize :: nat where
  "kDdmPacketHeaderSize = kJDWPHeaderLen + 4 + 4"

text \<open>
  An uninitialised array of \<open>n\<close> elements: it holds \<open>n\<close> arbitrary values, the first \<open>n\<close>
  of \<open>garbage\<close> (continued with \<open>pad\<close> when the argument is shorter).
\<close>

definition uninitialised :: "nat \<Rightarrow> 'a list \<Rightarrow> 'a \<Rightarrow> 'a list" where
  "uninitialised n garbage pad = take n (garbage @ replicate n pad)"

text \<open>
  \<^verbatim>\<open>PublishDdmData(type, data)\<close>. \<open>garbage\<close> is what the uninitialised
  \<^verbatim>\<open>std::array<uint8_t, kDdmPacketHeaderSize> pkt\<close> holds on entry and \<open>writev_res\<close> what
  \<^verbatim>\<open>writev\<close> returns. \<^verbatim>\<open>data.size()\<close> is a \<^verbatim>\<open>size_t\<close> and \<^verbatim>\<open>htonl\<close> takes a \<^verbatim>\<open>uint32_t\<close>:
  the two length fields are the sizes modulo \<open>2^32\<close>.
\<close>

definition PublishDdmData ::
  "AdbConnectionState \<Rightarrow> 32 word \<Rightarrow> 8 word list \<Rightarrow> 8 word list \<Rightarrow> int
     \<Rightarrow> AdbConnectionState option" where
  "PublishDdmData s type data garbage writev_res =
     (case ScopedEventFdLock s of
        None \<Rightarrow> None
      | Some (lk, s1) \<Rightarrow>
          if adb_connection_socket s1 = -1 then
            Some (ScopedEventFdLock_release lk (emit (Log WARNING) s1))
          else
            let pkt0 = uninitialised kDdmPacketHeaderSize garbage 0;
                pkt1 = store_u32 pkt0 0 (htonl (word_of_nat (kDdmPacketHeaderSize + length data)));
                (ddm_id, s2) = NextDdmId s1;
                pkt2 = store_u32 pkt1 4 (htonl ddm_id);
                pkt3 = pkt2[8 := 0];
                pkt4 = pkt3[9 := kJDWPDdmCmdSet];
                pkt5 = pkt4[10 := kJDWPDdmCmd];
                pkt6 = store_u32 pkt5 11 (htonl type);
                pkt7 = store_u32 pkt6 15 (htonl (word_of_nat (length data)));
                s3 = emit (Writev (adb_connection_socket s2) pkt7 data) s2;
                s4 = (if writev_res \<noteq> int (kDdmPacketHeaderSize + length data)
                      then emit (Log ERROR) s3 else s3)
            in Some (ScopedEventFdLock_release lk s4))"

text \<open>The datagrams that \<^verbatim>\<open>writev\<close> was asked to send, oldest first: header, then payload.\<close>

fun ddm_packets :: "effect list \<Rightarrow> 8 word list list" where
  "ddm_packets [] = []"
| "ddm_packets (Writev fd hdr payload # es) = (hdr @ payload) # ddm_packets es"
| "ddm_packets (e # es) = ddm_packets es"

text \<open>Reading a big-endian 32-bit field of a packet.\<close>

definition be32 :: "8 word list \<Rightarrow> nat \<Rightarrow> 32 word" where
  "be32 mem off = push_bit 24 (ucast (mem ! off)) OR push_bit 16 (ucast (mem ! (off + 1)))
                  OR push_bit 8 (ucast (mem ! (off + 2))) OR ucast (mem ! (off + 3))"

section \<open>The agent load argument\<close>

text \<open>\<^verbatim>\<open>std::to_string(int)\<close>: decimal, with a minus sign for negative values.\<close>

fun digits :: "nat \<Rightarrow> string" where
  "digits n = (if n < 10 then [''0123456789'' ! n]
               else digits (n div 10) @ [''0123456789'' ! (n mod 10)])"

definition to_string :: "int \<Rightarrow> string" where
  "to_string i = (if i < 0 then ''-'' @ digits (nat (- i)) else digits (nat i))"

text \<open>\<^verbatim>\<open>MakeAgentArg\<close>; \<open>opts\<close> is what \<^verbatim>\<open>Runtime::Current()->GetJdwpOptions()\<close> returns.\<close>

definition MakeAgentArg :: "AdbConnectionState \<Rightarrow> string \<Rightarrow> string" where
  "MakeAgentArg s opts =
     agent_name s @ ''='' @ opts @ (if opts = [] then [] else '','')
       @ ''transport=dt_fd_forward,address='' @ to_string (remote_agent_control_sock s)"

section \<open>Connecting to the daemon\<close>

text \<open>
  One pass of the retry loop of \<^verbatim>\<open>SetupAdbConnection\<close>, as the environment answers it:
  what \<^verbatim>\<open>connect\<close> returns, whether \<^verbatim>\<open>socket_peer_is_trusted\<close> holds, what \<^verbatim>\<open>send\<close>
  returns, and whether \<^verbatim>\<open>StopDebuggerThreads\<close> runs on another thread before the loop
  condition is tested again.
\<close>

record connect_attempt =
  connect_ret :: int
  peer_trusted :: bool
  send_ret :: int
  stop_during_sleep :: bool

definition sleep_max_ms :: int where
  "sleep_max_ms = 2 * 1000"

definition sizeof_pid_t :: int where
  "sizeof_pid_t = 4"

text \<open>
  The \<^verbatim>\<open>while (!shutting_down_)\<close> loop. The result is \<open>Some\<close> of the value returned, or
  \<open>None\<close> when every attempt described has failed and the loop is still running. A
  \<^verbatim>\<open>return false\<close> destroys the local \<^verbatim>\<open>unique_fd sock\<close>, which closes it.
\<close>

fun SetupAdbConnection_loop ::
  "AdbConnectionState \<Rightarrow> int \<Rightarrow> int \<Rightarrow> connect_attempt list
     \<Rightarrow> bool option \<times> AdbConnectionState" where
  "SetupAdbConnection_loop s sock sleep_ms [] =
     (if shutting_down s then (Some False, emit (Close sock) s) else (None, s))"
| "SetupAdbConnection_loop s sock sleep_ms (a # rest) =
     (if shutting_down s then (Some False, emit (Close sock) s)
      else if connect_ret a = 0 then
        (let trusted = (sock \<ge> 0 \<and> peer_trusted a) in
         if \<not> trusted then (Some False, emit (Close sock) (emit (Log ERROR) s))
         else if send_ret a = sizeof_pid_t then
           (Some True,
            (if control_sock s \<noteq> -1 then emit (Close (control_sock s)) s else s)
              \<lparr>control_sock := sock\<rparr>)
         else (Some False, emit (Close sock) (emit (Log ERROR) s)))
      else
        (let s1 = emit (Usleep (sleep_ms * 1000)) (emit (Log ERROR) s);
             sleep_ms1 = sleep_ms + drop_bit 1 sleep_ms;
             sleep_ms2 = (if sleep_ms1 > sleep_max_ms then sleep_max_ms else sleep_ms1);
             s2 = s1\<lparr>shutting_down := shutting_down s1 \<or> stop_during_sleep a\<rparr>
         in SetupAdbConnection_loop s2 sock sleep_ms2 rest))"

text \<open>\<^verbatim>\<open>SetupAdbConnection\<close>; \<open>socket_ret\<close> is what \<^verbatim>\<open>socket(AF_UNIX, SOCK_SEQPACKET, 0)\<close> returns.\<close>

definition SetupAdbConnection ::
  "AdbConnectionState \<Rightarrow> int \<Rightarrow> connect_attempt list \<Rightarrow> bool option \<times> AdbConnectionState" where
  "SetupAdbConnection s socket_ret attempts =
     (if socket_ret < 0 then (Some False, emit (Log ERROR) s)
      else SetupAdbConnection_loop s socket_ret 500 attempts)"

text \<open>The arguments of the \<^verbatim>\<open>usleep\<close> calls made, in microseconds, oldest first.\<close>

fun usleeps :: "effect list \<Rightarrow> int list" where
  "usleeps [] = []"
| "usleeps (Usleep us # es) = us # usleeps es"
| "usleeps (e # es) = usleeps es"

text \<open>
  The back-off as the specification words it: 500 ms first, then 1.5 times the previous
  duration (in whole milliseconds), never more than 2000 ms.
\<close>

fun backoff_ms :: "nat \<Rightarrow> int" where
  "backoff_ms 0 = 500"
| "backoff_ms (Suc n) = min 2000 \<lfloor>1.5 * real_of_int (backoff_ms n)\<rfloor>"

section \<open>The poll loop\<close>

text \<open>\<^verbatim>\<open>POLLIN\<close> and \<^verbatim>\<open>POLLRDHUP\<close> of \<^verbatim>\<open><poll.h>\<close> on Linux.\<close>

definition POLLIN :: "16 word" where
  "POLLIN = 0x0001"

definition POLLRDHUP :: "16 word" where
  "POLLRDHUP = 0x2000"

definition FlagsSet :: "16 word \<Rightarrow> 16 word \<Rightarrow> bool" where
  "FlagsSet data flags = ((data AND flags) = flags)"

text \<open>
  Modelled from the spec: the header \<^verbatim>\<open>fd_transport.h\<close> with the four message arrays is not
  among the sources. The spec names the tokens \<open>ds-listen-start\<close>, \<open>ds-listen-end\<close>,
  \<open>ds-accept\<close> and \<open>ds-close\<close>. The code compares \<^verbatim>\<open>sizeof\<close> of each array, which for a
  \<^verbatim>\<open>char\<close> array initialised from a string literal counts the terminating NUL: the arrays
  are the tokens with their terminator.
\<close>

definition kListenStartMessage :: string where
  "kListenStartMessage = ''ds-listen-start'' @ [CHR 0x00]"

definition kListenEndMessage :: string where
  "kListenEndMessage = ''ds-listen-end'' @ [CHR 0x00]"

definition kAcceptMessage :: string where
  "kAcceptMessage = ''ds-accept'' @ [CHR 0x00]"

definition kCloseMessage :: string where
  "kCloseMessage = ''ds-close'' @ [CHR 0x00]"

text \<open>\<^verbatim>\<open>memcmp(a, b, n) == 0\<close>, both arrays at least \<open>n\<close> bytes long.\<close>

definition memcmp_eq :: "string \<Rightarrow> string \<Rightarrow> nat \<Rightarrow> bool" where
  "memcmp_eq a b n = (take n a = take n b)"

datatype recv_result = RecvError | RecvData string

text \<open>
  What the environment answers during one pass of the loop: whether
  \<^verbatim>\<open>StopDebuggerThreads\<close> has run on another thread since the last test of
  \<^verbatim>\<open>shutting_down_\<close>; for \<^verbatim>\<open>SetupAdbConnection\<close> the socket and the connect attempts; what
  \<^verbatim>\<open>poll\<close> returns and the \<^verbatim>\<open>revents\<close> the kernel has for the three slots the code looks
  at; what \<^verbatim>\<open>char buf[257]\<close> holds before \<^verbatim>\<open>recv\<close>, and the datagram \<^verbatim>\<open>recv\<close> finds (or
  its failure); the return value of \<^verbatim>\<open>recvmsg\<close> and the descriptor it puts into the control
  buffer, if any; what the three \<^verbatim>\<open>dup\<close> calls and \<^verbatim>\<open>sendmsg\<close> return; the JDWP options of
  the runtime, and whether \<^verbatim>\<open>AttachAgent\<close> leaves an exception pending.
\<close>

record poll_env =
  stop_requested :: bool
  socket_fd :: int
  connect_attempts :: "connect_attempt list"
  poll_ret :: int
  agent_control_revents :: "16 word"
  control_revents :: "16 word"
  adb_revents :: "16 word"
  buf_garbage :: string
  recv_res :: recv_result
  recvmsg_rc :: int
  recvmsg_fd :: "int option"
  dup_read_fd :: int
  dup_write_fd :: int
  dup_write_lock_fd :: int
  sendmsg_res :: int
  jdwp_options :: string
  attach_exception :: bool

text \<open>
  A \<^verbatim>\<open>DCHECK\<close> is compiled out of release builds and aborts in debug builds. Here a failed
  one is recorded, with its source line, and the code goes on as a release build does.
\<close>

definition dcheck :: "nat \<Rightarrow> bool \<Rightarrow> AdbConnectionState \<Rightarrow> AdbConnectionState" where
  "dcheck line cond s = (if cond then s else emit (DcheckFailed line) s)"

text \<open>\<^verbatim>\<open>dup(fd)\<close> fails on an invalid descriptor; on a valid one the kernel decides.\<close>

definition dup :: "int \<Rightarrow> int \<Rightarrow> int" where
  "dup fd answer = (if fd < 0 then -1 else answer)"

text \<open>The closing half of \<^verbatim>\<open>unique_fd::reset()\<close> and of the destructor.\<close>

definition unique_fd_close :: "int \<Rightarrow> AdbConnectionState \<Rightarrow> AdbConnectionState" where
  "unique_fd_close fd s = (if fd \<noteq> -1 then emit (Close fd) s else s)"

text \<open>
  \<^verbatim>\<open>SendAgentFds\<close>. A failed \<^verbatim>\<open>CHECK_NE\<close> on a \<^verbatim>\<open>dup\<close> aborts the process: \<open>None\<close>. The
  three duplicates are closed by their destructors, last constructed first.
\<close>

definition SendAgentFds :: "AdbConnectionState \<Rightarrow> poll_env \<Rightarrow> AdbConnectionState option" where
  "SendAgentFds s e =
     (let s0 = dcheck 334 (\<not> sent_agent_fds s) s;
          read_fd = dup (adb_connection_socket s0) (dup_read_fd e)
      in if read_fd = -1 then None
      else let write_fd = dup (adb_connection_socket s0) (dup_write_fd e)
      in if write_fd = -1 then None
      else let write_lock_fd = dup (adb_write_event_fd s0) (dup_write_lock_fd e)
      in if write_lock_fd = -1 then None
      else
        let s1 = emit (SendMsg (local_agent_control_sock s0) [read_fd, write_fd, write_lock_fd]) s0;
            s2 = (if sendmsg_res e < 0 then emit (Log ERROR) s1 else s1\<lparr>sent_agent_fds := True\<rparr>)
        in Some (unique_fd_close read_fd (unique_fd_close write_fd (unique_fd_close write_lock_fd s2))))"

text \<open>
  \<^verbatim>\<open>ReadFdFromAdb\<close>: the control buffer is preset to \<open>-1\<close>, which stays there when
  \<^verbatim>\<open>recvmsg\<close> delivers no descriptor.
\<close>

definition ReadFdFromAdb :: "AdbConnectionState \<Rightarrow> poll_env \<Rightarrow> int \<times> AdbConnectionState" where
  "ReadFdFromAdb s e =
     (if recvmsg_rc e \<le> 0 then (-1, emit (Log WARNING) s)
      else (case recvmsg_fd e of None \<Rightarrow> -1 | Some fd \<Rightarrow> fd, s))"

text \<open>
  How one pass through the body of the inner loop ends: \<^verbatim>\<open>continue\<close> (or falling off the
  end), \<^verbatim>\<open>break\<close>, or the thread going no further: it returns from \<^verbatim>\<open>RunPollLoop\<close>, blocks
  for ever on the write eventfd, aborts on a failed \<^verbatim>\<open>CHECK\<close>, writes outside an array, or
  the connect attempts described are used up.
\<close>

datatype stop = Returned | Blocked | Aborted | OutOfBounds | Unanswered

datatype ctl = Continue | Break | Stop stop

text \<open>
  \<^verbatim>\<open>recv(local_agent_control_sock_, buf, sizeof(buf) - 1, 0)\<close> on a datagram \<open>d\<close>, and the
  store \<^verbatim>\<open>buf[res + 1] = '\0'\<close> behind it; \<open>None\<close> when the store is outside the array.
\<close>

definition recv_agent_buf :: "string \<Rightarrow> string \<Rightarrow> string option" where
  "recv_agent_buf garbage d =
     (let buf0 = uninitialised 257 garbage (CHR 0x00);
          res = min (length d) (length buf0 - 1);
          buf1 = take res d @ drop res buf0
      in if res + 1 < length buf1 then Some (buf1[res + 1 := CHR 0x00]) else None)"

text \<open>The branch for \<^verbatim>\<open>POLLIN\<close> on the agent control socket.\<close>

definition agent_control_sock_POLLIN ::
  "AdbConnectionState \<Rightarrow> poll_env \<Rightarrow> ctl \<times> AdbConnectionState" where
  "agent_control_sock_POLLIN s e =
     (let s0 = dcheck 520 (agent_loaded s) s in
      case recv_res e of
        RecvError \<Rightarrow> (Continue, emit (Log ERROR) s0)
      | RecvData d \<Rightarrow>
          (case recv_agent_buf (buf_garbage e) d of
             None \<Rightarrow> (Stop OutOfBounds, s0)
           | Some buf \<Rightarrow>
               if memcmp_eq kListenStartMessage buf (length kListenStartMessage) then
                 (let s1 = s0\<lparr>agent_listening := True\<rparr> in
                  if adb_connection_socket s1 \<noteq> -1 then
                    (case SendAgentFds s1 e of
                       None \<Rightarrow> (Stop Aborted, s1)
                     | Some s2 \<Rightarrow> (Continue, s2))
                  else (Continue, s1))
               else if memcmp_eq kListenEndMessage buf (length kListenEndMessage) then
                 (Continue, s0\<lparr>agent_listening := False\<rparr>)
               else if memcmp_eq kCloseMessage buf (length kCloseMessage) then
                 (case CloseFds s0 of
                    None \<Rightarrow> (Stop Blocked, s0)
                  | Some s1 \<Rightarrow> (Continue, s1\<lparr>agent_has_socket := False\<rparr>))
               else if memcmp_eq kAcceptMessage buf (length kAcceptMessage) then
                 (Continue, s0\<lparr>agent_has_socket := True, sent_agent_fds := False\<rparr>)
               else (Continue, emit (Log ERROR) s0)))"

text \<open>\<^verbatim>\<open>control_sock_.reset()\<close>.\<close>

definition reset_control_sock :: "AdbConnectionState \<Rightarrow> AdbConnectionState" where
  "reset_control_sock s = (unique_fd_close (control_sock s) s)\<lparr>control_sock := -1\<rparr>"

text \<open>
  The branch for \<^verbatim>\<open>POLLIN\<close> on the control socket. In the second case \<^verbatim>\<open>new_fd\<close> is closed by
  \<^verbatim>\<open>reset()\<close> when it is not negative and by its destructor otherwise, in both cases before
  the lock is released.
\<close>

definition control_sock_POLLIN ::
  "AdbConnectionState \<Rightarrow> poll_env \<Rightarrow> ctl \<times> AdbConnectionState" where
  "control_sock_POLLIN s e =
     (case ScopedEventFdLock s of
        None \<Rightarrow> (Stop Blocked, s)
      | Some (lk, s1) \<Rightarrow>
          (let (new_fd, s2) = ReadFdFromAdb s1 e in
           if new_fd = -1 then
             (Break, ScopedEventFdLock_release lk (reset_control_sock (emit (Log ERROR) s2)))
           else if adb_connection_socket s2 \<noteq> -1 then
             (let s3 = (if new_fd \<ge> 0 then unique_fd_close new_fd s2 else s2);
                  new_fd1 = (if new_fd \<ge> 0 then -1 else new_fd)
              in (Continue, ScopedEventFdLock_release lk (unique_fd_close new_fd1 s3)))
           else
             (let s3 = ScopedEventFdLock_release lk
                         ((unique_fd_close (adb_connection_socket s2) s2)
                            \<lparr>adb_connection_socket := new_fd\<rparr>)
              in if agent_loaded s3 \<and> agent_listening s3 then
                   (case SendAgentFds s3 e of
                      None \<Rightarrow> (Stop Aborted, s3)
                    | Some s4 \<Rightarrow> (Continue, s4))
                 else (Continue, s3))))"

text \<open>The branch for \<^verbatim>\<open>POLLRDHUP\<close> on the control socket.\<close>

definition control_sock_POLLRDHUP :: "AdbConnectionState \<Rightarrow> ctl \<times> AdbConnectionState" where
  "control_sock_POLLRDHUP s =
     (Break, reset_control_sock (dcheck 576 (\<not> agent_has_socket s) s))"

text \<open>The branch for \<^verbatim>\<open>POLLIN\<close> on the connection itself.\<close>

definition adb_socket_POLLIN ::
  "AdbConnectionState \<Rightarrow> poll_env \<Rightarrow> ctl \<times> AdbConnectionState" where
  "adb_socket_POLLIN s e =
     (let s0 = dcheck 581 (\<not> agent_has_socket s) s in
      if \<not> agent_loaded s0 then
        (let s1 = dcheck 583 (\<not> agent_listening s0) s0;
             s2 = emit (AttachAgent (MakeAgentArg s1 (jdwp_options e))) s1
         in if attach_exception e then (Stop Returned, emit (Log ERROR) s2)
            else (Continue, s2\<lparr>agent_loaded := True\<rparr>))
      else if agent_listening s0 \<and> \<not> sent_agent_fds s0 then
        (case SendAgentFds s0 e of
           None \<Rightarrow> (Stop Aborted, s0)
         | Some s1 \<Rightarrow> (Continue, s1))
      else (Continue, s0))"

text \<open>\<^verbatim>\<open>poll\<close> ignores a slot whose descriptor is negative and reports no event for it.\<close>

definition poll_revents :: "int \<Rightarrow> 16 word \<Rightarrow> 16 word" where
  "poll_revents fd answer = (if fd < 0 then 0 else answer)"

text \<open>The body of the inner loop of \<^verbatim>\<open>RunPollLoop\<close>.\<close>

definition RunPollLoop_body ::
  "AdbConnectionState \<Rightarrow> poll_env \<Rightarrow> ctl \<times> AdbConnectionState" where
  "RunPollLoop_body s e =
     (let agent_control_sock_poll =
            poll_revents (if agent_loaded s then local_agent_control_sock s else -1)
              (agent_control_revents e);
          control_sock_poll =
            poll_revents (if adb_connection_socket s = -1 then control_sock s else -1)
              (control_revents e);
          adb_socket_poll =
            poll_revents
              (if \<not> agent_has_socket s \<and> \<not> sent_agent_fds s then adb_connection_socket s else -1)
              (adb_revents e)
      in if poll_ret e < 0 then (Stop Returned, emit (Log ERROR) s)
         else if FlagsSet agent_control_sock_poll POLLIN then agent_control_sock_POLLIN s e
         else if FlagsSet control_sock_poll POLLIN then control_sock_POLLIN s e
         else if FlagsSet control_sock_poll POLLRDHUP then control_sock_POLLRDHUP s
         else if FlagsSet adb_socket_poll POLLIN then adb_socket_POLLIN s e
         else (Continue, s))"

text \<open>
  \<^verbatim>\<open>RunPollLoop\<close> as a machine with the thread's position: about to test the condition of
  the outer loop, about to test the condition of the inner loop, or gone. The flag
  \<^verbatim>\<open>shutting_down_\<close> is set by \<^verbatim>\<open>StopDebuggerThreads\<close> from another thread; a test of the
  flag sees the requests made before it.
\<close>

datatype pc = OuterLoop | InnerLoop | Stopped stop

definition StopDebuggerThreads :: "AdbConnectionState \<Rightarrow> AdbConnectionState" where
  "StopDebuggerThreads s = s\<lparr>shutting_down := True\<rparr>"

definition observe_stop :: "poll_env \<Rightarrow> AdbConnectionState \<Rightarrow> AdbConnectionState" where
  "observe_stop e s = (if stop_requested e then StopDebuggerThreads s else s)"

definition RunPollLoop_step ::
  "pc \<times> AdbConnectionState \<Rightarrow> poll_env \<Rightarrow> pc \<times> AdbConnectionState" where
  "RunPollLoop_step c e =
     (case fst c of
        Stopped r \<Rightarrow> c
      | OuterLoop \<Rightarrow>
          (let s0 = observe_stop e (snd c) in
           if shutting_down s0 then (Stopped Returned, s0)
           else if control_sock s0 = -1 then
             (case SetupAdbConnection s0 (socket_fd e) (connect_attempts e) of
                (None, s1) \<Rightarrow> (Stopped Unanswered, s1)
              | (Some ok, s1) \<Rightarrow>
                  if ok then (InnerLoop, s1) else (Stopped Returned, emit (Log ERROR) s1))
           else (InnerLoop, s0))
      | InnerLoop \<Rightarrow>
          (let s0 = observe_stop e (snd c) in
           if \<not> shutting_down s0 \<and> control_sock s0 \<noteq> -1 then
             (case RunPollLoop_body s0 e of
                (Continue, s1) \<Rightarrow> (InnerLoop, s1)
              | (Break, s1) \<Rightarrow> (OuterLoop, s1)
              | (Stop r, s1) \<Rightarrow> (Stopped r, s1))
           else (OuterLoop, s0)))"

text \<open>
  What happens to the broker: the poll thread makes a step, or a runtime thread publishes
  a DDM chunk (a publisher that would block for ever does nothing).
\<close>

datatype action =
    LoopStep poll_env
  | Publish "32 word" "8 word list" "8 word list" int

definition act :: "pc \<times> AdbConnectionState \<Rightarrow> action \<Rightarrow> pc \<times> AdbConnectionState" where
  "act c a =
     (case a of
        LoopStep e \<Rightarrow> RunPollLoop_step c e
      | Publish type data garbage writev_res \<Rightarrow>
          (case PublishDdmData (snd c) type data garbage writev_res of
             None \<Rightarrow> c
           | Some s' \<Rightarrow> (fst c, s')))"

definition run :: "AdbConnectionState \<Rightarrow> action list \<Rightarrow> pc \<times> AdbConnectionState" where
  "run s as = foldl act (OuterLoop, s) as"

text \<open>
  The broker when the poll thread starts: constructed, then \<^verbatim>\<open>StartDebuggerThreads\<close>.
\<close>

definition started ::
  "string \<Rightarrow> int \<Rightarrow> int \<Rightarrow> int \<Rightarrow> int \<Rightarrow> bool \<Rightarrow> bool \<Rightarrow> AdbConnectionState" where
  "started name sleep_fd write_fd local_fd remote_fd has_socket_mem sent_fds_mem =
     StartDebuggerThreads sleep_fd write_fd local_fd remote_fd
       (AdbConnectionState_new name has_socket_mem sent_fds_mem)"

section \<open>What the agent is expected to do\<close>

text \<open>
  The buffer that an action makes the poll thread dispatch on, if the action is a step of
  the loop that reads a datagram from the agent control socket.
\<close>

definition agent_buf :: "pc \<times> AdbConnectionState \<Rightarrow> action \<Rightarrow> string option" where
  "agent_buf c a =
     (case a of
        Publish type data garbage writev_res \<Rightarrow> None
      | LoopStep e \<Rightarrow>
          (let s0 = observe_stop e (snd c) in
           if fst c = InnerLoop \<and> \<not> shutting_down s0 \<and> control_sock s0 \<noteq> -1
              \<and> \<not> poll_ret e < 0
              \<and> FlagsSet (poll_revents (if agent_loaded s0 then local_agent_control_sock s0 else -1)
                            (agent_control_revents e)) POLLIN
           then (case recv_res e of
                   RecvError \<Rightarrow> None
                 | RecvData d \<Rightarrow> recv_agent_buf (buf_garbage e) d)
           else None))"

text \<open>
  A rule for the agent says, for the broker's state and the buffer holding the agent's
  message, whether the message is allowed there. A list of actions obeys the rule when
  every agent message in it is allowed in the state it arrives in.
\<close>

fun agent_obeys ::
  "(AdbConnectionState \<Rightarrow> string \<Rightarrow> bool) \<Rightarrow> pc \<times> AdbConnectionState \<Rightarrow> action list \<Rightarrow> bool" where
  "agent_obeys rule c [] = True"
| "agent_obeys rule c (a # as) =
     ((case agent_buf c a of None \<Rightarrow> True | Some buf \<Rightarrow> rule (snd c) buf)
      \<and> agent_obeys rule (act c a) as)"


section \<open>Sample environments\<close>

definition connect_ok :: connect_attempt where
  "connect_ok = \<lparr>connect_ret = 0, peer_trusted = True, send_ret = 4, stop_during_sleep = False\<rparr>"

definition connect_refused :: connect_attempt where
  "connect_refused =
     \<lparr>connect_ret = -1, peer_trusted = True, send_ret = 4, stop_during_sleep = False\<rparr>"

text \<open>Nothing is ready; every call that might be made succeeds.\<close>

definition quiet :: poll_env where
  "quiet =
     \<lparr>stop_requested = False, socket_fd = 5, connect_attempts = [connect_ok],
      poll_ret = 1, agent_control_revents = 0, control_revents = 0, adb_revents = 0,
      buf_garbage = [], recv_res = RecvError, recvmsg_rc = 1, recvmsg_fd = Some 7,
      dup_read_fd = 8, dup_write_fd = 9, dup_write_lock_fd = 10, sendmsg_res = 1,
      jdwp_options = [], attach_exception = False\<rparr>"

definition daemon_sends_fd :: poll_env where
  "daemon_sends_fd = quiet\<lparr>control_revents := POLLIN\<rparr>"


definition debugger_talks :: poll_env where
  "debugger_talks = quiet\<lparr>adb_revents := POLLIN\<rparr>"

definition agent_says :: "string \<Rightarrow> poll_env" where
  "agent_says d = quiet\<lparr>agent_control_revents := POLLIN, recv_res := RecvData d\<rparr>"

text \<open>A broker whose two uninitialised flags happen to start as false.\<close>

definition sample_broker :: AdbConnectionState where
  "sample_broker = started ''libjdwp.so'' 3 4 11 12 False False"


text \<open>The sample broker once connected to the daemon and holding the debugger's descriptor 7.\<close>

definition connected_sample :: AdbConnectionState where
  "connected_sample = snd (run sample_broker [LoopStep quiet, LoopStep daemon_sends_fd])"

text \<open>The packet that the connected sample broker emits for a chunk.\<close>

definition sample_packet :: "32 word \<Rightarrow> 8 word list \<Rightarrow> 8 word list" where
  "sample_packet type data =
     last (ddm_packets (effects (the (PublishDdmData connected_sample type data [] 0))))"

text \<open>The sample broker with the debugger's descriptor in hand and the agent loaded.\<close>

definition agent_loaded_sample :: AdbConnectionState where
  "agent_loaded_sample =
     snd (run sample_broker [LoopStep quiet, LoopStep daemon_sends_fd, LoopStep debugger_talks])"

text \<open>The daemon offers descriptor 13.\<close>

definition daemon_sends_second_fd :: poll_env where
  "daemon_sends_second_fd = daemon_sends_fd\<lparr>recvmsg_fd := Some 13\<rparr>"

text \<open>Two chunks published while the debugger is connected, one while it is not.\<close>

definition publishing_session :: "action list" where
  "publishing_session =
     [LoopStep quiet, Publish 0x48454c4f [1] [] 20, LoopStep daemon_sends_fd,
      Publish 0x41414141 [0, 0, 0, 0] [] 23, LoopStep debugger_talks,
      Publish 0x42424242 [] [] 19]"




text \<open>
  The agent's datagram is the first eight bytes of a message array, and the buffer still
  holds the bytes of that array from an earlier pass.
\<close>

definition stale_accept :: poll_env where
  "stale_accept = (agent_says ''ds-accep'')\<lparr>buf_garbage := kAcceptMessage\<rparr>"

definition stale_close :: poll_env where
  "stale_close = (agent_says ''ds-clos'')\<lparr>buf_garbage := kCloseMessage\<rparr>"

text \<open>
  The daemon offers a second descriptor while the first is held; it is still on offer when
  the agent has closed the first connection.
\<close>

definition second_debugger_session :: "action list" where
  "second_debugger_session =
     [LoopStep quiet, LoopStep daemon_sends_fd, LoopStep debugger_talks,
      LoopStep daemon_sends_second_fd, LoopStep (agent_says kCloseMessage),
      LoopStep daemon_sends_second_fd]"

section \<open>Vocabulary of the statements\<close>

text \<open>The datagram begins with the bytes of the message array.\<close>

definition starts_with :: "string \<Rightarrow> string \<Rightarrow> bool" where
  "starts_with tok d = (take (length tok) d = tok)"



text \<open>The ids of the packets emitted so far, oldest first.\<close>

definition ddm_ids :: "AdbConnectionState \<Rightarrow> 32 word list" where
  "ddm_ids s = map (\<lambda>p. be32 p 4) (ddm_packets (effects s))"

text \<open>
  The \<open>k\<close>-th packet carries the id \<open>0x80000000 | k\<close>, and the counter is one ahead of the
  number of packets.
\<close>

definition ddm_ids_in_sequence :: "AdbConnectionState \<Rightarrow> bool" where
  "ddm_ids_in_sequence s =
     (next_ddm_id s = 1 + word_of_nat (length (ddm_ids s))
      \<and> ddm_ids s = map (\<lambda>k. 0x80000000 OR word_of_nat k) [1..<Suc (length (ddm_ids s))])"

text \<open>Reading a decimal number back.\<close>

definition digit_value :: "char \<Rightarrow> nat" where
  "digit_value c = of_char c - 48"

definition read_digits :: "string \<Rightarrow> nat" where
  "read_digits cs = foldl (\<lambda>n c. 10 * n + digit_value c) 0 cs"

definition read_int :: "string \<Rightarrow> int" where
  "read_int cs = (if cs \<noteq> [] \<and> hd cs = CHR ''-'' then - int (read_digits (tl cs))
                  else int (read_digits cs))"

section \<open>Bytes of a stored word\<close>

lemma ucast_htonl_0: "(ucast (htonl x) :: 8 word) = ucast (drop_bit 24 x)"
  unfolding htonl_def by (rule bit_word_eqI) (auto simp: bit_simps)

lemma ucast_htonl_1: "(ucast (drop_bit 8 (htonl x)) :: 8 word) = ucast (drop_bit 16 x)"
  unfolding htonl_def by (rule bit_word_eqI) (auto simp: bit_simps)

lemma ucast_htonl_2: "(ucast (drop_bit 16 (htonl x)) :: 8 word) = ucast (drop_bit 8 x)"
  unfolding htonl_def by (rule bit_word_eqI) (auto simp: bit_simps)

lemma ucast_htonl_3: "(ucast (drop_bit 24 (htonl x)) :: 8 word) = ucast x"
  unfolding htonl_def by (rule bit_word_eqI) (auto simp: bit_simps)

lemma be32_bytes:
  "push_bit 24 (ucast (ucast (drop_bit 24 x) :: 8 word))
     OR push_bit 16 (ucast (ucast (drop_bit 16 x) :: 8 word))
     OR push_bit 8 (ucast (ucast (drop_bit 8 x) :: 8 word))
     OR ucast (ucast x :: 8 word) = (x :: 32 word)"
proof (rule bit_word_eqI)
  fix n :: nat
  assume "n < LENGTH(32)"
  then have n: "n < 32" by simp
  consider "n < 8" | "8 \<le> n" "n < 16" | "16 \<le> n" "n < 24" | "24 \<le> n"
    by linarith
  then show "bit (push_bit 24 (ucast (ucast (drop_bit 24 x) :: 8 word))
     OR push_bit 16 (ucast (ucast (drop_bit 16 x) :: 8 word))
     OR push_bit 8 (ucast (ucast (drop_bit 8 x) :: 8 word))
     OR ucast (ucast x :: 8 word) :: 32 word) n = bit x n"
    using n by cases (auto simp: bit_simps)
qed

lemma length_store_u32 [simp]: "length (store_u32 mem off v) = length mem"
  by (simp add: store_u32_def)

text \<open>A word stored in network order is read back by its big-endian reading.\<close>

lemma be32_store_htonl:
  "off + 3 < length mem \<Longrightarrow> be32 (store_u32 mem off (htonl v)) off = v"
  by (simp add: be32_def store_u32_def ucast_htonl_0 ucast_htonl_1 ucast_htonl_2
      ucast_htonl_3 be32_bytes)

lemma be32_store_u32_other:
  "off' + 3 < off \<or> off + 3 < off' \<Longrightarrow> be32 (store_u32 mem off v) off' = be32 mem off'"
  by (auto simp: be32_def store_u32_def)

lemma be32_update_other:
  "i < off \<or> off + 3 < i \<Longrightarrow> be32 (mem[i := b]) off = be32 mem off"
  by (auto simp: be32_def)

lemma nth_store_u32_other:
  "i < off \<or> off + 3 < i \<Longrightarrow> store_u32 mem off v ! i = mem ! i"
  by (auto simp: store_u32_def)

lemma be32_append:
  "off + 3 < length h \<Longrightarrow> be32 (h @ d) off = be32 h off"
  by (simp add: be32_def nth_append)

lemma length_uninitialised [simp]: "length (uninitialised n g pad) = n"
  by (simp add: uninitialised_def)

lemma ddm_packets_append [simp]:
  "ddm_packets (xs @ ys) = ddm_packets xs @ ddm_packets ys"
  by (induction xs rule: ddm_packets.induct) simp_all

section \<open>Publishing a DDM chunk\<close>

text \<open>
  With a connection and the write eventfd free, \<^verbatim>\<open>PublishDdmData\<close> emits one packet: the
  19 header bytes the code writes, then the payload.
\<close>

lemma publish_connected:
  assumes "write_event_count s \<noteq> 0" and "adb_connection_socket s \<noteq> -1"
  shows "\<exists>s' p. PublishDdmData s type data garbage writev_res = Some s'
           \<and> ddm_packets (effects s') = ddm_packets (effects s) @ [p]
           \<and> length p = 19 + length data
           \<and> be32 p 0 = word_of_nat (19 + length data)
           \<and> be32 p 4 = (next_ddm_id s OR 0x80000000)
           \<and> p ! 8 = 0 \<and> p ! 9 = 0xC7 \<and> p ! 10 = 1
           \<and> be32 p 11 = type
           \<and> be32 p 15 = word_of_nat (length data)
           \<and> drop 19 p = data
           \<and> next_ddm_id s' = next_ddm_id s + 1"
  using assms
  apply (simp add: PublishDdmData_def ScopedEventFdLock_def ScopedEventFdLock_release_def
      emit_def NextDdmId_def Let_def kDdmPacketHeaderSize_def kJDWPHeaderLen_def
      kJDWPDdmCmdSet_def kJDWPDdmCmd_def)
  apply (simp add: be32_append be32_store_htonl be32_store_u32_other be32_update_other
      nth_append nth_store_u32_other)
  done

text \<open>
  C1, as the code has it. For every packet that \<^verbatim>\<open>PublishDdmData(type, data)\<close> emits, the
  big-endian total-length field at offset 0 is \<open>19 + len(data)\<close> (modulo \<open>2^32\<close>, the field
  being 32 bits wide), the flags byte 0 is at offset 8, the command set \<open>0xC7\<close> at offset 9,
  the command 1 at offset 10, the chunk type at offset 11, the chunk length \<open>len(data)\<close> at
  offset 15 and the payload from offset 19 on; an empty payload gives a packet of 19 bytes
  whose length field is 19.
\<close>

theorem ddm_packet_layout:
  assumes "write_event_count s \<noteq> 0" and "adb_connection_socket s \<noteq> -1"
  shows "\<exists>s' p. PublishDdmData s type data garbage writev_res = Some s'
           \<and> ddm_packets (effects s') = ddm_packets (effects s) @ [p]
           \<and> length p = 19 + length data
           \<and> be32 p 0 = word_of_nat (19 + length data)
           \<and> (19 + length data < 2 ^ 32 \<longrightarrow> unat (be32 p 0) = 19 + length data)
           \<and> p ! 8 = 0 \<and> p ! 9 = 0xC7 \<and> p ! 10 = 1
           \<and> be32 p 11 = type
           \<and> be32 p 15 = word_of_nat (length data)
           \<and> drop 19 p = data
           \<and> (data = [] \<longrightarrow> length p = 19 \<and> be32 p 0 = 19)"
proof -
  obtain s' p where *: "PublishDdmData s type data garbage writev_res = Some s'"
      "ddm_packets (effects s') = ddm_packets (effects s) @ [p]"
      "length p = 19 + length data"
      "be32 p 0 = word_of_nat (19 + length data)"
      "p ! 8 = 0" "p ! 9 = 0xC7" "p ! 10 = 1" "be32 p 11 = type"
      "be32 p 15 = word_of_nat (length data)" "drop 19 p = data"
    using publish_connected [OF assms, of type data garbage writev_res] by blast
  have "unat (be32 p 0) = 19 + length data" if "19 + length data < 2 ^ 32"
    using that *(4) by (simp add: unat_of_nat del: of_nat_add)
  moreover have "length p = 19 \<and> be32 p 0 = 19" if "data = []"
    using that *(3,4) by simp
  ultimately show ?thesis using * by blast
qed

theorem ddm_packet_layout_witness:
  "write_event_count connected_sample \<noteq> 0 \<and> adb_connection_socket connected_sample \<noteq> -1
   \<and> (\<exists>s' p. PublishDdmData connected_sample 0x41414141 [] [] 19 = Some s'
           \<and> ddm_packets (effects s') = ddm_packets (effects connected_sample) @ [p]
           \<and> length p = 19 \<and> be32 p 0 = 19 \<and> unat (be32 p 0) = 19
           \<and> p ! 8 = 0 \<and> p ! 9 = 0xC7 \<and> p ! 10 = 1
           \<and> be32 p 11 = 0x41414141 \<and> be32 p 15 = 0 \<and> drop 19 p = [])"
proof -
  have h1: "write_event_count connected_sample \<noteq> 0" by code_simp
  have h2: "adb_connection_socket connected_sample \<noteq> -1" by code_simp
  show ?thesis
    using h1 h2 ddm_packet_layout [OF h1 h2, of "0x41414141" "[]" "[]" 19] by auto
qed

text \<open>
  The claim as the specification words it, a length field of \<open>23 + len(data)\<close> and a packet
  of 23 bytes for an empty payload, fails: the packet for an empty payload has 19 bytes and
  says so.
\<close>

theorem ddm_packet_length_23_counterexample:
  "PublishDdmData connected_sample 0x41414141 [] [] 0 \<noteq> None
   \<and> length (sample_packet 0x41414141 []) = 19
   \<and> be32 (sample_packet 0x41414141 []) 0 = 19
   \<and> \<not> (length (sample_packet 0x41414141 []) = 23
          \<and> be32 (sample_packet 0x41414141 []) 0 = 23 + word_of_nat (length ([] :: 8 word list)))"
  by code_simp

lemma publish_without_connection:
  assumes "adb_connection_socket s = -1" and "write_event_count s \<noteq> 0"
  shows "PublishDdmData s type data garbage writev_res
           = Some (s\<lparr>effects := effects s @ [EventFdRead, Log WARNING, EventFdWrite]\<rparr>)"
  using assms
  by (simp add: PublishDdmData_def ScopedEventFdLock_def ScopedEventFdLock_release_def emit_def)

text \<open>
  C7. A call of \<^verbatim>\<open>PublishDdmData\<close> while there is no connection, the write eventfd being
  free, returns; all it does is take the interlock, log the warning and release the
  interlock. Nothing is written, the id counter and every other member are as before, and so
  is the eventfd's counter.
\<close>

theorem publish_disconnected:
  assumes "adb_connection_socket s = -1" and "write_event_count s \<noteq> 0"
  shows "PublishDdmData s type data garbage writev_res
           = Some (s\<lparr>effects := effects s @ [EventFdRead, Log WARNING, EventFdWrite]\<rparr>)"
  using assms by (rule publish_without_connection)

theorem publish_disconnected_witness:
  "adb_connection_socket sample_broker = -1 \<and> write_event_count sample_broker \<noteq> 0
   \<and> PublishDdmData sample_broker 0x41414141 [1, 2, 3] [] 22
       = Some (sample_broker\<lparr>effects := effects sample_broker
                                 @ [EventFdRead, Log WARNING, EventFdWrite]\<rparr>)
   \<and> ddm_packets (effects (the (PublishDdmData sample_broker 0x41414141 [1, 2, 3] [] 22))) = []
   \<and> next_ddm_id (the (PublishDdmData sample_broker 0x41414141 [1, 2, 3] [] 22)) = 1"
proof -
  have h1: "adb_connection_socket sample_broker = -1" by code_simp
  have h2: "write_event_count sample_broker \<noteq> 0" by code_simp
  have h3: "ddm_packets (effects sample_broker) = []" by code_simp
  have h4: "next_ddm_id sample_broker = 1" by code_simp
  show ?thesis
    using h1 h2 h3 h4 publish_disconnected [OF h1 h2, of "0x41414141" "[1, 2, 3]" "[]" 22]
    by simp
qed

section \<open>The agent load argument\<close>

lemma digit_value_nth: "d < 10 \<Longrightarrow> digit_value (''0123456789'' ! d) = d"
proof -
  assume "d < 10"
  then consider "d = 0" | "d = 1" | "d = 2" | "d = 3" | "d = 4" | "d = 5" | "d = 6"
    | "d = 7" | "d = 8" | "d = 9" by (auto simp: numeral_eq_Suc less_Suc_eq)
  then show ?thesis by cases (simp_all add: digit_value_def)
qed

lemma digit_not_minus: "d < 10 \<Longrightarrow> ''0123456789'' ! d \<noteq> CHR ''-''"
proof -
  assume "d < 10"
  then consider "d = 0" | "d = 1" | "d = 2" | "d = 3" | "d = 4" | "d = 5" | "d = 6"
    | "d = 7" | "d = 8" | "d = 9" by (auto simp: numeral_eq_Suc less_Suc_eq)
  then show ?thesis by cases simp_all
qed

declare digits.simps [simp del]

lemma read_digits_digits: "read_digits (digits n) = n"
proof (induction n rule: digits.induct)
  case (1 n)
  show ?case
  proof (cases "n < 10")
    case True
    then show ?thesis
      by (subst digits.simps) (simp add: read_digits_def digit_value_nth)
  next
    case False
    have "read_digits (digits n)
            = 10 * read_digits (digits (n div 10)) + digit_value (''0123456789'' ! (n mod 10))"
      using False by (subst digits.simps) (simp add: read_digits_def)
    also have "\<dots> = 10 * (n div 10) + n mod 10"
      using 1 False by (simp add: digit_value_nth)
    finally show ?thesis by simp
  qed
qed

lemma digits_nonempty: "digits n \<noteq> []"
  by (subst digits.simps) simp

lemma hd_digits: "hd (digits n) \<noteq> CHR ''-''"
proof (induction n rule: digits.induct)
  case (1 n)
  show ?case
  proof (cases "n < 10")
    case True
    then show ?thesis by (subst digits.simps) (simp add: digit_not_minus)
  next
    case False
    then have "hd (digits n) = hd (digits (n div 10))"
      by (subst digits.simps) (simp add: digits_nonempty)
    then show ?thesis using 1 False by simp
  qed
qed

text \<open>The number printed by \<^verbatim>\<open>std::to_string\<close> reads back as the descriptor.\<close>

lemma read_int_to_string: "read_int (to_string i) = i"
  by (simp add: read_int_def to_string_def read_digits_digits hd_digits digits_nonempty)

text \<open>
  C3, as the code has it. For every value of the JDWP options string the agent load
  argument is \<open><agent_name>=<jdwp_options>[,]transport=dt_fd_forward,address=<fd>\<close>, where
  the comma is there if and only if the options string is not empty and \<open><fd>\<close> is the
  number of \<^verbatim>\<open>remote_agent_control_sock_\<close> in decimal.
\<close>

theorem agent_arg_format:
  "\<exists>sep fd. MakeAgentArg s opts
              = agent_name s @ ''='' @ opts @ sep @ ''transport=dt_fd_forward,address='' @ fd
         \<and> (sep = '','' \<or> sep = [])
         \<and> (sep = '','' \<longleftrightarrow> opts \<noteq> [])
         \<and> read_int fd = remote_agent_control_sock s"
  by (rule exI [of _ "if opts = [] then [] else '',''"],
      rule exI [of _ "to_string (remote_agent_control_sock s)"])
     (simp add: MakeAgentArg_def read_int_to_string)

text \<open>
  The claim as the specification words it, with the transport named \<open>fd_forward\<close>, fails:
  the code names the transport \<open>dt_fd_forward\<close>.
\<close>

theorem agent_arg_fd_forward_counterexample:
  "MakeAgentArg sample_broker [] = ''libjdwp.so=transport=dt_fd_forward,address=12''
   \<and> MakeAgentArg sample_broker []
        \<noteq> agent_name sample_broker @ ''='' @ [] @ [] @ ''transport=fd_forward,address=''
            @ to_string (remote_agent_control_sock sample_broker)
   \<and> MakeAgentArg sample_broker ''suspend=n''
        \<noteq> agent_name sample_broker @ ''='' @ ''suspend=n'' @ '','' @ ''transport=fd_forward,address=''
            @ to_string (remote_agent_control_sock sample_broker)"
  by code_simp

theorem agent_arg_format_witness:
  "\<exists>sep fd. MakeAgentArg sample_broker ''suspend=n''
              = ''libjdwp.so'' @ ''='' @ ''suspend=n'' @ sep @ ''transport=dt_fd_forward,address='' @ fd
         \<and> sep = '','' \<and> read_int fd = 12"
proof -
  have h1: "agent_name sample_broker = ''libjdwp.so''" by code_simp
  have h2: "remote_agent_control_sock sample_broker = 12" by code_simp
  show ?thesis
    using agent_arg_format [of sample_broker "''suspend=n''"] unfolding h1 h2 by auto
qed

section \<open>Connecting to the daemon\<close>

text \<open>Multiplying by 1.5 in whole milliseconds is adding half, as the code does.\<close>

lemma backoff_ms_Suc: "backoff_ms (Suc n) = min 2000 (backoff_ms n + backoff_ms n div 2)"
proof -
  have "1.5 * real_of_int (backoff_ms n) = real_of_int (3 * backoff_ms n) / real_of_int 2"
    by simp
  then have "\<lfloor>1.5 * real_of_int (backoff_ms n)\<rfloor> = (3 * backoff_ms n) div 2"
    by (simp only: floor_divide_of_int_eq)
  also have "\<dots> = backoff_ms n + backoff_ms n div 2" by linarith
  finally show ?thesis by simp
qed

declare backoff_ms.simps(2) [simp del]

lemma backoff_ms_bounds: "500 \<le> backoff_ms n \<and> backoff_ms n \<le> 2000"
proof (induction n)
  case 0 show ?case by simp
next
  case (Suc n)
  then show ?case unfolding backoff_ms_Suc by linarith
qed

lemma backoff_ms_first: "backoff_ms 0 = 500 \<and> backoff_ms 1 = 750 \<and> backoff_ms 2 = 1125"
proof -
  have "backoff_ms (Suc 0) = 750" unfolding backoff_ms_Suc by simp
  moreover from this have "backoff_ms (Suc (Suc 0)) = 1125"
    unfolding backoff_ms_Suc [of "Suc 0"] by simp
  ultimately show ?thesis by (simp add: numeral_2_eq_2)
qed

lemma usleeps_append [simp]: "usleeps (xs @ ys) = usleeps xs @ usleeps ys"
  by (induction xs rule: usleeps.induct) simp_all

text \<open>A refused connect: log, sleep, lengthen the sleep, go round again.\<close>

lemma loop_refused:
  assumes "\<not> shutting_down s" and "connect_ret a \<noteq> 0"
  shows "SetupAdbConnection_loop s sock ms (a # rest)
           = SetupAdbConnection_loop
               ((emit (Usleep (ms * 1000)) (emit (Log ERROR) s))
                  \<lparr>shutting_down := stop_during_sleep a\<rparr>)
               sock (min sleep_max_ms (ms + ms div 2)) rest"
proof -
  have "(if ms + drop_bit 1 ms > sleep_max_ms then sleep_max_ms else ms + drop_bit 1 ms)
          = min sleep_max_ms (ms + ms div 2)"
    by (simp add: drop_bit_eq_div min_def)
  then show ?thesis
    using assms by (simp add: Let_def emit_def del: One_nat_def)
qed

lemma loop_sleeps:
  "\<exists>n\<le>length attempts.
     usleeps (effects (snd (SetupAdbConnection_loop s sock (backoff_ms k) attempts)))
       = usleeps (effects s) @ map (\<lambda>i. 1000 * backoff_ms i) [k..<k + n]"
proof (induction attempts arbitrary: s k)
  case Nil
  show ?case by (simp add: emit_def)
next
  case (Cons a rest)
  show ?case
  proof (cases "shutting_down s \<or> connect_ret a = 0")
    case True
    have "usleeps (effects (snd (SetupAdbConnection_loop s sock (backoff_ms k) (a # rest))))
            = usleeps (effects s)"
      using True by (auto simp: emit_def Let_def)
    then show ?thesis by (intro exI [of _ 0]) simp
  next
    case False
    define s2 where "s2 = (emit (Usleep (backoff_ms k * 1000)) (emit (Log ERROR) s))
                            \<lparr>shutting_down := stop_during_sleep a\<rparr>"
    have step: "SetupAdbConnection_loop s sock (backoff_ms k) (a # rest)
                  = SetupAdbConnection_loop s2 sock (backoff_ms (Suc k)) rest"
      using False loop_refused [of s a sock "backoff_ms k" rest]
      by (simp add: s2_def backoff_ms_Suc sleep_max_ms_def)
    obtain n where n: "n \<le> length rest"
      "usleeps (effects (snd (SetupAdbConnection_loop s2 sock (backoff_ms (Suc k)) rest)))
         = usleeps (effects s2) @ map (\<lambda>i. 1000 * backoff_ms i) [Suc k..<Suc k + n]"
      using Cons.IH [of s2 "Suc k"] by blast
    have s2: "usleeps (effects s2) = usleeps (effects s) @ [1000 * backoff_ms k]"
      by (simp add: s2_def emit_def)
    have "usleeps (effects (snd (SetupAdbConnection_loop s sock (backoff_ms k) (a # rest))))
            = usleeps (effects s2) @ map (\<lambda>i. 1000 * backoff_ms i) [Suc k..<Suc k + n]"
      by (simp only: step n(2))
    also have "\<dots> = usleeps (effects s) @ map (\<lambda>i. 1000 * backoff_ms i) [k..<k + Suc n]"
      unfolding s2 by (simp add: upt_conv_Cons del: upt_Suc)
    finally show ?thesis using n(1)
      by (intro exI [of _ "Suc n"]) (simp del: upt_Suc SetupAdbConnection_loop.simps)
  qed
qed

lemma loop_retries:
  assumes "\<not> shutting_down s"
    and "\<forall>a\<in>set attempts. connect_ret a \<noteq> 0 \<and> \<not> stop_during_sleep a"
  shows "fst (SetupAdbConnection_loop s sock (backoff_ms k) attempts) = None
       \<and> usleeps (effects (snd (SetupAdbConnection_loop s sock (backoff_ms k) attempts)))
           = usleeps (effects s) @ map (\<lambda>i. 1000 * backoff_ms i) [k..<k + length attempts]"
  using assms
proof (induction attempts arbitrary: s k)
  case Nil
  then show ?case by simp
next
  case (Cons a rest)
  define s2 where "s2 = (emit (Usleep (backoff_ms k * 1000)) (emit (Log ERROR) s))
                          \<lparr>shutting_down := stop_during_sleep a\<rparr>"
  have step: "SetupAdbConnection_loop s sock (backoff_ms k) (a # rest)
                = SetupAdbConnection_loop s2 sock (backoff_ms (Suc k)) rest"
    using Cons.prems loop_refused [of s a sock "backoff_ms k" rest]
    by (simp add: s2_def backoff_ms_Suc sleep_max_ms_def)
  have "\<not> shutting_down s2" using Cons.prems by (simp add: s2_def emit_def)
  moreover have "\<forall>a\<in>set rest. connect_ret a \<noteq> 0 \<and> \<not> stop_during_sleep a"
    using Cons.prems by simp
  ultimately have IH: "fst (SetupAdbConnection_loop s2 sock (backoff_ms (Suc k)) rest) = None
       \<and> usleeps (effects (snd (SetupAdbConnection_loop s2 sock (backoff_ms (Suc k)) rest)))
           = usleeps (effects s2) @ map (\<lambda>i. 1000 * backoff_ms i) [Suc k..<Suc k + length rest]"
    by (rule Cons.IH)
  have s2: "usleeps (effects s2) = usleeps (effects s) @ [1000 * backoff_ms k]"
    by (simp add: s2_def emit_def)
  have "usleeps (effects s2) @ map (\<lambda>i. 1000 * backoff_ms i) [Suc k..<Suc k + length rest]
          = usleeps (effects s) @ map (\<lambda>i. 1000 * backoff_ms i) [k..<k + length (a # rest)]"
    unfolding s2 by (simp add: upt_conv_Cons del: upt_Suc)
  then show ?case using IH by (simp only: step)
qed

text \<open>A stop requested during a sleep ends the loop at its next test.\<close>

lemma loop_stopped:
  assumes "\<not> shutting_down s" and "connect_ret a \<noteq> 0" and "stop_during_sleep a"
  shows "fst (SetupAdbConnection_loop s sock ms (a # rest)) = Some False
       \<and> usleeps (effects (snd (SetupAdbConnection_loop s sock ms (a # rest))))
           = usleeps (effects s) @ [1000 * ms]"
proof -
  have "SetupAdbConnection_loop s sock ms (a # rest)
          = SetupAdbConnection_loop
               ((emit (Usleep (ms * 1000)) (emit (Log ERROR) s))\<lparr>shutting_down := True\<rparr>)
               sock (min sleep_max_ms (ms + ms div 2)) rest"
    using loop_refused [OF assms(1,2)] assms(3) by simp
  then show ?thesis by (cases rest) (simp_all add: emit_def)
qed

text \<open>After refused connects with no stop requested the loop stands at its next test.\<close>

lemma loop_after_refusals:
  assumes "\<not> shutting_down s"
    and "\<forall>a\<in>set pre. connect_ret a \<noteq> 0 \<and> \<not> stop_during_sleep a"
  shows "\<exists>s'. SetupAdbConnection_loop s sock (backoff_ms k) (pre @ tail)
                 = SetupAdbConnection_loop s' sock (backoff_ms (k + length pre)) tail
              \<and> \<not> shutting_down s' \<and> control_sock s' = control_sock s
              \<and> usleeps (effects s')
                  = usleeps (effects s) @ map (\<lambda>i. 1000 * backoff_ms i) [k..<k + length pre]"
  using assms
proof (induction pre arbitrary: s k)
  case Nil
  then show ?case by (intro exI [of _ s]) simp
next
  case (Cons a rest)
  define s2 where "s2 = (emit (Usleep (backoff_ms k * 1000)) (emit (Log ERROR) s))
                          \<lparr>shutting_down := stop_during_sleep a\<rparr>"
  have step: "SetupAdbConnection_loop s sock (backoff_ms k) ((a # rest) @ tail)
                = SetupAdbConnection_loop s2 sock (backoff_ms (Suc k)) (rest @ tail)"
    using Cons.prems loop_refused [of s a sock "backoff_ms k" "rest @ tail"]
    by (simp add: s2_def backoff_ms_Suc sleep_max_ms_def)
  have s2: "usleeps (effects s2) = usleeps (effects s) @ [1000 * backoff_ms k]"
    "control_sock s2 = control_sock s" "\<not> shutting_down s2"
    using Cons.prems by (simp_all add: s2_def emit_def)
  have "\<forall>a\<in>set rest. connect_ret a \<noteq> 0 \<and> \<not> stop_during_sleep a"
    using Cons.prems by simp
  from Cons.IH [OF s2(3) this, of "Suc k"]
  obtain s' where s': "SetupAdbConnection_loop s2 sock (backoff_ms (Suc k)) (rest @ tail)
                 = SetupAdbConnection_loop s' sock (backoff_ms (Suc k + length rest)) tail"
      "\<not> shutting_down s'" "control_sock s' = control_sock s2"
      "usleeps (effects s')
         = usleeps (effects s2) @ map (\<lambda>i. 1000 * backoff_ms i) [Suc k..<Suc k + length rest]"
    by blast
  have "usleeps (effects s2) @ map (\<lambda>i. 1000 * backoff_ms i) [Suc k..<Suc k + length rest]
          = usleeps (effects s) @ map (\<lambda>i. 1000 * backoff_ms i) [k..<k + length (a # rest)]"
    unfolding s2(1) by (simp add: upt_conv_Cons del: upt_Suc)
  then have "SetupAdbConnection_loop s sock (backoff_ms k) ((a # rest) @ tail)
                 = SetupAdbConnection_loop s' sock (backoff_ms (k + length (a # rest))) tail
              \<and> \<not> shutting_down s' \<and> control_sock s' = control_sock s
              \<and> usleeps (effects s')
                  = usleeps (effects s)
                      @ map (\<lambda>i. 1000 * backoff_ms i) [k..<k + length (a # rest)]"
    using s' s2(2) by (simp only: step) simp
  then show ?case by blast
qed

text \<open>
  C8. The sleeps of \<^verbatim>\<open>SetupAdbConnection\<close> are, in order, the first so many of the back-off
  sequence 500 ms, 750 ms, 1125 ms and so on, each 1.5 times its predecessor in whole
  milliseconds (1687 ms after 1125 ms) and none above 2000 ms; there is one sleep for each
  refused connect. While nobody asks the broker to stop, every refused connect is followed
  by another attempt. A stop requested during any of the sleeps ends the loop with failure
  at its next test, with no further sleep, and so does a stop requested before the loop is
  entered. A connect that succeeds after refused ones, the peer trusted and the pid sent,
  ends the loop with success and installs the socket.
\<close>

theorem connect_backoff:
  "(\<exists>n\<le>length attempts.
      usleeps (effects (snd (SetupAdbConnection s sock attempts)))
        = usleeps (effects s) @ map (\<lambda>i. 1000 * backoff_ms i) [0..<n])
   \<and> (\<forall>i. backoff_ms i \<le> 2000)
   \<and> backoff_ms 0 = 500 \<and> backoff_ms 1 = 750 \<and> backoff_ms 2 = 1125 \<and> backoff_ms 3 = 1687
   \<and> (0 \<le> sock \<and> \<not> shutting_down s
        \<and> (\<forall>a\<in>set attempts. connect_ret a \<noteq> 0 \<and> \<not> stop_during_sleep a) \<longrightarrow>
      fst (SetupAdbConnection s sock attempts) = None
      \<and> usleeps (effects (snd (SetupAdbConnection s sock attempts)))
          = usleeps (effects s) @ map (\<lambda>i. 1000 * backoff_ms i) [0..<length attempts])
   \<and> (0 \<le> sock \<and> \<not> shutting_down s
        \<and> (\<forall>x\<in>set pre. connect_ret x \<noteq> 0 \<and> \<not> stop_during_sleep x)
        \<and> connect_ret a \<noteq> 0 \<and> stop_during_sleep a \<longrightarrow>
      fst (SetupAdbConnection s sock (pre @ a # rest)) = Some False
      \<and> usleeps (effects (snd (SetupAdbConnection s sock (pre @ a # rest))))
          = usleeps (effects s) @ map (\<lambda>i. 1000 * backoff_ms i) [0..<Suc (length pre)])
   \<and> (0 \<le> sock \<and> shutting_down s \<longrightarrow>
      fst (SetupAdbConnection s sock attempts) = Some False
      \<and> usleeps (effects (snd (SetupAdbConnection s sock attempts))) = usleeps (effects s))
   \<and> (0 \<le> sock \<and> \<not> shutting_down s
        \<and> (\<forall>x\<in>set pre. connect_ret x \<noteq> 0 \<and> \<not> stop_during_sleep x)
        \<and> connect_ret a = 0 \<and> peer_trusted a \<and> send_ret a = sizeof_pid_t \<longrightarrow>
      fst (SetupAdbConnection s sock (pre @ a # rest)) = Some True
      \<and> control_sock (snd (SetupAdbConnection s sock (pre @ a # rest))) = sock
      \<and> usleeps (effects (snd (SetupAdbConnection s sock (pre @ a # rest))))
          = usleeps (effects s) @ map (\<lambda>i. 1000 * backoff_ms i) [0..<length pre])"
proof (intro conjI allI impI)
  show "\<exists>n\<le>length attempts.
      usleeps (effects (snd (SetupAdbConnection s sock attempts)))
        = usleeps (effects s) @ map (\<lambda>i. 1000 * backoff_ms i) [0..<n]"
  proof (cases "sock < 0")
    case True
    then show ?thesis
      by (intro exI [of _ 0]) (simp add: SetupAdbConnection_def emit_def)
  next
    case False
    then show ?thesis
      using loop_sleeps [of attempts s sock 0] by (simp add: SetupAdbConnection_def)
  qed
next
  fix i show "backoff_ms i \<le> 2000" using backoff_ms_bounds [of i] by simp
next
  show "backoff_ms 0 = 500" "backoff_ms 1 = 750" "backoff_ms 2 = 1125"
    using backoff_ms_first by simp_all
next
  have "backoff_ms (Suc 2) = min 2000 (backoff_ms 2 + backoff_ms 2 div 2)"
    by (rule backoff_ms_Suc)
  then show "backoff_ms 3 = 1687"
    using backoff_ms_first by (simp add: numeral_3_eq_3 numeral_2_eq_2)
next
  assume h: "0 \<le> sock \<and> \<not> shutting_down s
        \<and> (\<forall>a\<in>set attempts. connect_ret a \<noteq> 0 \<and> \<not> stop_during_sleep a)"
  then have "fst (SetupAdbConnection_loop s sock (backoff_ms 0) attempts) = None
       \<and> usleeps (effects (snd (SetupAdbConnection_loop s sock (backoff_ms 0) attempts)))
           = usleeps (effects s) @ map (\<lambda>i. 1000 * backoff_ms i) [0..<0 + length attempts]"
    by (intro loop_retries) simp_all
  then show "fst (SetupAdbConnection s sock attempts) = None"
    and "usleeps (effects (snd (SetupAdbConnection s sock attempts)))
          = usleeps (effects s) @ map (\<lambda>i. 1000 * backoff_ms i) [0..<length attempts]"
    using h by (simp_all add: SetupAdbConnection_def)
next
  assume h: "0 \<le> sock \<and> \<not> shutting_down s
        \<and> (\<forall>x\<in>set pre. connect_ret x \<noteq> 0 \<and> \<not> stop_during_sleep x)
        \<and> connect_ret a \<noteq> 0 \<and> stop_during_sleep a"
  then obtain s' where s':
      "SetupAdbConnection_loop s sock (backoff_ms 0) (pre @ a # rest)
         = SetupAdbConnection_loop s' sock (backoff_ms (0 + length pre)) (a # rest)"
      "\<not> shutting_down s'"
      "usleeps (effects s')
         = usleeps (effects s) @ map (\<lambda>i. 1000 * backoff_ms i) [0..<0 + length pre]"
    using loop_after_refusals [of s pre sock 0 "a # rest"] by blast
  have stop: "fst (SetupAdbConnection_loop s' sock (backoff_ms (length pre)) (a # rest))
                = Some False
       \<and> usleeps (effects (snd (SetupAdbConnection_loop s' sock (backoff_ms (length pre))
                                   (a # rest))))
           = usleeps (effects s') @ [1000 * backoff_ms (length pre)]"
    using h s'(2) by (intro loop_stopped) simp_all
  have eq: "SetupAdbConnection s sock (pre @ a # rest)
              = SetupAdbConnection_loop s' sock (backoff_ms (length pre)) (a # rest)"
    using h s'(1) by (simp add: SetupAdbConnection_def del: SetupAdbConnection_loop.simps)
  show "fst (SetupAdbConnection s sock (pre @ a # rest)) = Some False"
    unfolding eq using stop by blast
  have "usleeps (effects (snd (SetupAdbConnection s sock (pre @ a # rest))))
          = (usleeps (effects s) @ map (\<lambda>i. 1000 * backoff_ms i) [0..<length pre])
              @ [1000 * backoff_ms (length pre)]"
    unfolding eq using stop s'(3) by (simp del: SetupAdbConnection_loop.simps)
  then show "usleeps (effects (snd (SetupAdbConnection s sock (pre @ a # rest))))
          = usleeps (effects s) @ map (\<lambda>i. 1000 * backoff_ms i) [0..<Suc (length pre)]"
    by simp
next
  assume h: "0 \<le> sock \<and> shutting_down s"
  then have eq: "SetupAdbConnection s sock attempts = (Some False, emit (Close sock) s)"
    by (cases attempts) (simp_all add: SetupAdbConnection_def)
  show "fst (SetupAdbConnection s sock attempts) = Some False"
    and "usleeps (effects (snd (SetupAdbConnection s sock attempts))) = usleeps (effects s)"
    unfolding eq by (simp_all add: emit_def)
next
  assume h: "0 \<le> sock \<and> \<not> shutting_down s
        \<and> (\<forall>x\<in>set pre. connect_ret x \<noteq> 0 \<and> \<not> stop_during_sleep x)
        \<and> connect_ret a = 0 \<and> peer_trusted a \<and> send_ret a = sizeof_pid_t"
  then obtain s' where s':
      "SetupAdbConnection_loop s sock (backoff_ms 0) (pre @ a # rest)
         = SetupAdbConnection_loop s' sock (backoff_ms (0 + length pre)) (a # rest)"
      "\<not> shutting_down s'"
      "usleeps (effects s')
         = usleeps (effects s) @ map (\<lambda>i. 1000 * backoff_ms i) [0..<0 + length pre]"
    using loop_after_refusals [of s pre sock 0 "a # rest"] by blast
  have eq: "SetupAdbConnection s sock (pre @ a # rest)
              = (Some True,
                 (if control_sock s' \<noteq> -1 then emit (Close (control_sock s')) s' else s')
                   \<lparr>control_sock := sock\<rparr>)"
    using h s'(1,2) by (simp add: SetupAdbConnection_def Let_def)
  show "fst (SetupAdbConnection s sock (pre @ a # rest)) = Some True"
    and "control_sock (snd (SetupAdbConnection s sock (pre @ a # rest))) = sock"
    and "usleeps (effects (snd (SetupAdbConnection s sock (pre @ a # rest))))
          = usleeps (effects s) @ map (\<lambda>i. 1000 * backoff_ms i) [0..<length pre]"
    unfolding eq using s'(3) by (simp_all add: emit_def)
qed

theorem connect_backoff_witness:
  "(0::int) \<le> 5 \<and> \<not> shutting_down sample_broker
   \<and> connect_ret connect_refused \<noteq> 0 \<and> \<not> stop_during_sleep connect_refused
   \<and> fst (SetupAdbConnection sample_broker 5 [connect_refused, connect_refused, connect_refused])
       = None
   \<and> usleeps (effects (snd (SetupAdbConnection sample_broker 5
                                [connect_refused, connect_refused, connect_refused])))
       = [500000, 750000, 1125000]
   \<and> connect_ret (connect_refused\<lparr>stop_during_sleep := True\<rparr>) \<noteq> 0
   \<and> stop_during_sleep (connect_refused\<lparr>stop_during_sleep := True\<rparr>)
   \<and> fst (SetupAdbConnection sample_broker 5
             ([connect_refused, connect_refused]
                @ connect_refused\<lparr>stop_during_sleep := True\<rparr> # [connect_ok])) = Some False
   \<and> usleeps (effects (snd (SetupAdbConnection sample_broker 5
             ([connect_refused, connect_refused]
                @ connect_refused\<lparr>stop_during_sleep := True\<rparr> # [connect_ok]))))
       = [500000, 750000, 1125000]
   \<and> shutting_down (StopDebuggerThreads sample_broker)
   \<and> fst (SetupAdbConnection (StopDebuggerThreads sample_broker) 5 [connect_ok]) = Some False
   \<and> connect_ret connect_ok = 0 \<and> peer_trusted connect_ok \<and> send_ret connect_ok = sizeof_pid_t
   \<and> fst (SetupAdbConnection sample_broker 5 ([connect_refused] @ connect_ok # []))
       = Some True
   \<and> control_sock (snd (SetupAdbConnection sample_broker 5 ([connect_refused] @ connect_ok # [])))
       = 5
   \<and> usleeps (effects (snd (SetupAdbConnection sample_broker 5
                                ([connect_refused] @ connect_ok # []))))
       = [500000]"
proof -
  have h0: "(0::int) \<le> 5" by simp
  have h1: "\<not> shutting_down sample_broker" by code_simp
  have r: "connect_ret connect_refused \<noteq> 0 \<and> \<not> stop_during_sleep connect_refused"
    by (simp add: connect_refused_def)
  have h2: "\<forall>a\<in>set [connect_refused, connect_refused, connect_refused].
              connect_ret a \<noteq> 0 \<and> \<not> stop_during_sleep a"
    "\<forall>a\<in>set [connect_refused, connect_refused].
              connect_ret a \<noteq> 0 \<and> \<not> stop_during_sleep a"
    "\<forall>a\<in>set [connect_refused]. connect_ret a \<noteq> 0 \<and> \<not> stop_during_sleep a"
    using r by simp_all
  have h3: "usleeps (effects sample_broker) = []" by code_simp
  have h4: "connect_ret (connect_refused\<lparr>stop_during_sleep := True\<rparr>) \<noteq> 0
            \<and> stop_during_sleep (connect_refused\<lparr>stop_during_sleep := True\<rparr>)"
    by (simp add: connect_refused_def)
  have h5: "map (\<lambda>i. 1000 * backoff_ms i)
              [0..<length [connect_refused, connect_refused, connect_refused]]
            = [500000, 750000, 1125000]"
    "map (\<lambda>i. 1000 * backoff_ms i) [0..<Suc (length [connect_refused, connect_refused])]
            = [500000, 750000, 1125000]"
    "map (\<lambda>i. 1000 * backoff_ms i) [0..<length [connect_refused]] = [500000]"
    using backoff_ms_first by (simp_all add: upt_rec numeral_2_eq_2)
  have h6: "shutting_down (StopDebuggerThreads sample_broker)"
    by (simp add: StopDebuggerThreads_def)
  have h7: "connect_ret connect_ok = 0 \<and> peer_trusted connect_ok
            \<and> send_ret connect_ok = sizeof_pid_t"
    by (simp add: connect_ok_def sizeof_pid_t_def)
  note retried =
    connect_backoff [where attempts = "[connect_refused, connect_refused, connect_refused]"
      and s = sample_broker and sock = 5]
  note stopped =
    connect_backoff [where pre = "[connect_refused, connect_refused]"
      and a = "connect_refused\<lparr>stop_during_sleep := True\<rparr>" and rest = "[connect_ok]"
      and s = sample_broker and sock = 5]
  note stopped_before =
    connect_backoff [where attempts = "[connect_ok]" and s = "StopDebuggerThreads sample_broker"
      and sock = 5]
  note connected =
    connect_backoff [where pre = "[connect_refused]" and a = connect_ok and rest = "[]"
      and s = sample_broker and sock = 5]
  have 1: "fst (SetupAdbConnection sample_broker 5
               [connect_refused, connect_refused, connect_refused]) = None
        \<and> usleeps (effects (snd (SetupAdbConnection sample_broker 5
                                [connect_refused, connect_refused, connect_refused])))
            = usleeps (effects sample_broker) @ map (\<lambda>i. 1000 * backoff_ms i)
                [0..<length [connect_refused, connect_refused, connect_refused]]"
    using retried h0 h1 h2(1) by blast
  have 2: "fst (SetupAdbConnection sample_broker 5
             ([connect_refused, connect_refused]
                @ connect_refused\<lparr>stop_during_sleep := True\<rparr> # [connect_ok])) = Some False
        \<and> usleeps (effects (snd (SetupAdbConnection sample_broker 5
             ([connect_refused, connect_refused]
                @ connect_refused\<lparr>stop_during_sleep := True\<rparr> # [connect_ok]))))
            = usleeps (effects sample_broker) @ map (\<lambda>i. 1000 * backoff_ms i)
                [0..<Suc (length [connect_refused, connect_refused])]"
    using stopped h0 h1 h2(2) h4 by blast
  have 3: "fst (SetupAdbConnection (StopDebuggerThreads sample_broker) 5 [connect_ok])
             = Some False"
    using stopped_before h0 h6 by blast
  have 4: "fst (SetupAdbConnection sample_broker 5 ([connect_refused] @ connect_ok # []))
             = Some True
        \<and> control_sock (snd (SetupAdbConnection sample_broker 5
                                 ([connect_refused] @ connect_ok # []))) = 5
        \<and> usleeps (effects (snd (SetupAdbConnection sample_broker 5
                                ([connect_refused] @ connect_ok # []))))
            = usleeps (effects sample_broker) @ map (\<lambda>i. 1000 * backoff_ms i)
                [0..<length [connect_refused]]"
    using connected h0 h1 h2(3) h7 by blast
  show ?thesis
    using h0 h1 r h4 h6 h7 1 2 3 4 unfolding h3 h5 by (simp del: SetupAdbConnection_loop.simps)
qed

section \<open>Messages from the agent\<close>



lemma recv_agent_buf_None_iff: "recv_agent_buf garbage d = None \<longleftrightarrow> 256 \<le> length d"
  by (auto simp: recv_agent_buf_def Let_def)





lemma FlagsSet_0 [simp]: "\<not> FlagsSet 0 POLLIN" "\<not> FlagsSet 0 POLLRDHUP"
  by (simp_all add: FlagsSet_def POLLIN_def POLLRDHUP_def)

lemma body_agent_branch:
  assumes "agent_loaded s" and "0 \<le> local_agent_control_sock s" and "\<not> poll_ret e < 0"
    and "FlagsSet (agent_control_revents e) POLLIN"
  shows "RunPollLoop_body s e = agent_control_sock_POLLIN s e"
  using assms by (simp add: RunPollLoop_body_def poll_revents_def Let_def)

lemma CloseFds_free:
  assumes "write_event_count s \<noteq> 0"
  shows "CloseFds s
           = Some (s\<lparr>adb_connection_socket := -1,
                     effects := effects s @ [EventFdRead]
                       @ (if adb_connection_socket s \<noteq> -1
                          then [Close (adb_connection_socket s)] else [])
                       @ [EventFdWrite]\<rparr>)"
  using assms
  by (simp add: CloseFds_def ScopedEventFdLock_def ScopedEventFdLock_release_def
      reset_adb_connection_socket_def emit_def)


text \<open>
  C5, where the code fails it. The terminator is stored at \<^verbatim>\<open>buf[res + 1]\<close>, so the byte
  \<^verbatim>\<open>buf[res]\<close> behind the datagram is never written and keeps what the array held before
  (the same misplaced store that leaves the array for a datagram of 256 bytes), and
  \<^verbatim>\<open>memcmp\<close> reads it. The eight bytes \<open>ds-accep\<close> are none of the four messages; over a
  buffer that still holds \<open>ds-accept\<close> from an earlier pass they are taken for it, and
  \<open>agent_has_socket\<close> is set. The seven bytes \<open>ds-clos\<close> over a stale \<open>ds-close\<close> close the
  debugger's connection. Over a buffer of zeros the same two datagrams are logged as unknown
  and change nothing else.
\<close>

theorem agent_dispatch_on_stale_bytes:
  "recv_res stale_accept = RecvData ''ds-accep''
   \<and> \<not> starts_with kListenStartMessage ''ds-accep''
   \<and> \<not> starts_with kListenEndMessage ''ds-accep''
   \<and> \<not> starts_with kAcceptMessage ''ds-accep''
   \<and> \<not> starts_with kCloseMessage ''ds-accep''
   \<and> \<not> agent_has_socket agent_loaded_sample
   \<and> RunPollLoop_body agent_loaded_sample stale_accept
       = (Continue, agent_loaded_sample\<lparr>agent_has_socket := True, sent_agent_fds := False\<rparr>)
   \<and> RunPollLoop_body agent_loaded_sample (stale_accept\<lparr>buf_garbage := []\<rparr>)
       = (Continue, agent_loaded_sample\<lparr>effects := effects agent_loaded_sample @ [Log ERROR]\<rparr>)
   \<and> recv_res stale_close = RecvData ''ds-clos''
   \<and> \<not> starts_with kListenStartMessage ''ds-clos''
   \<and> \<not> starts_with kListenEndMessage ''ds-clos''
   \<and> \<not> starts_with kAcceptMessage ''ds-clos''
   \<and> \<not> starts_with kCloseMessage ''ds-clos''
   \<and> adb_connection_socket agent_loaded_sample = 7
   \<and> RunPollLoop_body agent_loaded_sample stale_close
       = (Continue,
          agent_loaded_sample\<lparr>adb_connection_socket := -1, agent_has_socket := False,
            effects := effects agent_loaded_sample @ [EventFdRead, Close 7, EventFdWrite]\<rparr>)
   \<and> RunPollLoop_body agent_loaded_sample (stale_close\<lparr>buf_garbage := []\<rparr>)
       = (Continue, agent_loaded_sample\<lparr>effects := effects agent_loaded_sample @ [Log ERROR]\<rparr>)"
  by code_simp

text \<open>
  C10, where the code fails it. \<^verbatim>\<open>recv\<close> may fill 256 bytes of the 257-byte buffer; for a
  datagram of 256 bytes (or more) the terminator goes to index \<open>res + 1 = 257\<close>, one past the
  last element. Shorter datagrams are fine.
\<close>

theorem agent_buffer_terminator_out_of_bounds:
  "recv_agent_buf [] (replicate 256 CHR ''x'') = None
   \<and> act (InnerLoop, agent_loaded_sample) (LoopStep (agent_says (replicate 256 CHR ''x'')))
       = (Stopped OutOfBounds, agent_loaded_sample)
   \<and> recv_agent_buf [] (replicate 255 CHR ''x'') \<noteq> None"
  by code_simp

section \<open>A second debugger\<close>

text \<open>
  The branch for input on the control socket, entered while the slot for the debugger's
  descriptor is taken, closes the new descriptor between the read and the write of the write
  eventfd and leaves the rest as it is.
\<close>

lemma control_sock_POLLIN_slot_taken:
  assumes "adb_connection_socket s \<noteq> -1" and "write_event_count s \<noteq> 0"
    and "0 < recvmsg_rc e" and "recvmsg_fd e = Some fd" and "fd \<noteq> -1"
  shows "control_sock_POLLIN s e
           = (Continue, s\<lparr>effects := effects s @ [EventFdRead, Close fd, EventFdWrite]\<rparr>)"
  using assms
  by (simp add: control_sock_POLLIN_def ScopedEventFdLock_def ScopedEventFdLock_release_def
      ReadFdFromAdb_def unique_fd_close_def emit_def)

text \<open>While the slot is taken the loop does not look at the control socket at all.\<close>

lemma SendAgentFds_control_revents [simp]:
  "SendAgentFds s (e\<lparr>control_revents := x\<rparr>) = SendAgentFds s e"
  by (simp add: SendAgentFds_def Let_def)

lemma agent_control_sock_POLLIN_control_revents [simp]:
  "agent_control_sock_POLLIN s (e\<lparr>control_revents := x\<rparr>) = agent_control_sock_POLLIN s e"
  by (simp add: agent_control_sock_POLLIN_def Let_def
      cong: recv_result.case_cong option.case_cong if_cong)

lemma adb_socket_POLLIN_control_revents [simp]:
  "adb_socket_POLLIN s (e\<lparr>control_revents := x\<rparr>) = adb_socket_POLLIN s e"
  by (simp add: adb_socket_POLLIN_def Let_def cong: option.case_cong if_cong)

lemma body_ignores_control_sock:
  assumes "adb_connection_socket s \<noteq> -1"
  shows "RunPollLoop_body s e = RunPollLoop_body s (e\<lparr>control_revents := 0\<rparr>)"
  using assms by (simp add: RunPollLoop_body_def poll_revents_def Let_def)

text \<open>
  C6, where the code fails it. The branch that closes a second descriptor (``Accept then
  drop'') is entered only when \<^verbatim>\<open>poll\<close> reports input on the control socket, and the loop
  gives \<^verbatim>\<open>poll\<close> the descriptor \<open>-1\<close> in that slot while a connection is held. So a
  descriptor that the daemon offers meanwhile is neither read nor closed: the pass changes
  nothing. It stays queued, and when the agent has closed the first connection the next pass
  adopts it as the debugger's connection; it is never closed.
\<close>

theorem second_debugger_left_queued:
  "adb_connection_socket connected_sample = 7
   \<and> FlagsSet (control_revents daemon_sends_second_fd) POLLIN
   \<and> recvmsg_fd daemon_sends_second_fd = Some 13
   \<and> RunPollLoop_body connected_sample daemon_sends_second_fd = (Continue, connected_sample)
   \<and> fst (run sample_broker (take 4 second_debugger_session)) = InnerLoop
   \<and> adb_connection_socket (snd (run sample_broker (take 4 second_debugger_session))) = 7
   \<and> Close 13 \<notin> set (effects (snd (run sample_broker (take 4 second_debugger_session))))
   \<and> fst (run sample_broker second_debugger_session) = InnerLoop
   \<and> adb_connection_socket (snd (run sample_broker second_debugger_session)) = 13
   \<and> Close 13 \<notin> set (effects (snd (run sample_broker second_debugger_session)))"
  by code_simp

section \<open>Properties kept by every action\<close>

lemmas prim_defs = emit_def dcheck_def unique_fd_close_def dup_def ScopedEventFdLock_def
  ScopedEventFdLock_release_def reset_adb_connection_socket_def reset_control_sock_def
  ReadFdFromAdb_def CloseFds_def SendAgentFds_def

text \<open>What the connect loop leaves alone.\<close>

lemma SetupAdbConnection_loop_frame:
  "SetupAdbConnection_loop s sock ms atts = (r, s') \<Longrightarrow>
     adb_connection_socket s' = adb_connection_socket s
     \<and> agent_has_socket s' = agent_has_socket s
     \<and> sent_agent_fds s' = sent_agent_fds s
     \<and> next_ddm_id s' = next_ddm_id s
     \<and> ddm_packets (effects s') = ddm_packets (effects s)
     \<and> (DcheckFailed n \<in> set (effects s') \<longleftrightarrow> DcheckFailed n \<in> set (effects s))"
proof (induction atts arbitrary: s ms)
  case Nil
  then show ?case by (auto simp: emit_def split: if_splits)
next
  case (Cons a rest)
  show ?case
  proof (cases "shutting_down s \<or> connect_ret a = 0")
    case True
    then show ?thesis using Cons.prems
      by (auto simp: emit_def Let_def split: if_splits)
  next
    case False
    define s2 where "s2 = (emit (Usleep (ms * 1000)) (emit (Log ERROR) s))
                             \<lparr>shutting_down := stop_during_sleep a\<rparr>"
    have "SetupAdbConnection_loop s2 sock (min sleep_max_ms (ms + ms div 2)) rest = (r, s')"
      using False Cons.prems loop_refused [of s a sock ms rest] by (simp add: s2_def)
    from Cons.IH [OF this]
    show ?thesis by (auto simp: s2_def emit_def)
  qed
qed

lemma SetupAdbConnection_frame:
  "SetupAdbConnection s sock atts = (r, s') \<Longrightarrow>
     adb_connection_socket s' = adb_connection_socket s
     \<and> agent_has_socket s' = agent_has_socket s
     \<and> sent_agent_fds s' = sent_agent_fds s
     \<and> next_ddm_id s' = next_ddm_id s
     \<and> ddm_packets (effects s') = ddm_packets (effects s)
     \<and> (DcheckFailed n \<in> set (effects s') \<longleftrightarrow> DcheckFailed n \<in> set (effects s))"
  using SetupAdbConnection_loop_frame [of s sock 500 atts r s' n]
  by (auto simp: SetupAdbConnection_def emit_def split: if_splits)

text \<open>
  A property of the broker that every piece of the loop and every publish keeps, the agent
  obeying a rule, holds after every action.
\<close>

lemma body_preserves:
  fixes P :: "AdbConnectionState \<Rightarrow> bool" and R :: "AdbConnectionState \<Rightarrow> string \<Rightarrow> bool"
  assumes body: "RunPollLoop_body s e = (k, s')" and start: "P s"
    and rule: "\<And>d buf. \<not> poll_ret e < 0 \<Longrightarrow>
            FlagsSet (poll_revents (if agent_loaded s then local_agent_control_sock s else -1)
                        (agent_control_revents e)) POLLIN \<Longrightarrow>
            recv_res e = RecvData d \<Longrightarrow> recv_agent_buf (buf_garbage e) d = Some buf
            \<Longrightarrow> R s buf"
    and P_log: "\<And>s. P s \<Longrightarrow> P (emit (Log ERROR) s)"
    and P_agent: "\<And>s e k s'. P s \<Longrightarrow> agent_control_sock_POLLIN s e = (k, s') \<Longrightarrow>
        (\<And>d buf. recv_res e = RecvData d \<Longrightarrow> recv_agent_buf (buf_garbage e) d = Some buf
            \<Longrightarrow> R s buf) \<Longrightarrow> P s'"
    and P_control: "\<And>s e k s'. P s \<Longrightarrow> control_sock_POLLIN s e = (k, s') \<Longrightarrow> P s'"
    and P_hangup: "\<And>s k s'. P s \<Longrightarrow> adb_connection_socket s = -1 \<Longrightarrow>
        control_sock_POLLRDHUP s = (k, s') \<Longrightarrow> P s'"
    and P_adb: "\<And>s e k s'. P s \<Longrightarrow> adb_socket_POLLIN s e = (k, s') \<Longrightarrow> P s'"
  shows "P s'"
proof -
  consider (err) "poll_ret e < 0" "s' = emit (Log ERROR) s"
    | (agent) "\<not> poll_ret e < 0"
        "FlagsSet (poll_revents (if agent_loaded s then local_agent_control_sock s else -1)
                        (agent_control_revents e)) POLLIN"
        "agent_control_sock_POLLIN s e = (k, s')"
    | (control) "control_sock_POLLIN s e = (k, s')"
    | (hangup) "adb_connection_socket s = -1" "control_sock_POLLRDHUP s = (k, s')"
    | (adb) "adb_socket_POLLIN s e = (k, s')"
    | (idle) "s' = s"
    using body
    by (auto simp: RunPollLoop_body_def Let_def poll_revents_def split: if_splits)
  then show ?thesis
  proof cases
    case err
    then show ?thesis using start P_log by simp
  next
    case agent
    show ?thesis by (rule P_agent [OF start agent(3)]) (rule rule [OF agent(1,2)])
  next
    case control
    show ?thesis by (rule P_control [OF start control])
  next
    case hangup
    show ?thesis by (rule P_hangup [OF start hangup])
  next
    case adb
    show ?thesis by (rule P_adb [OF start adb])
  next
    case idle
    then show ?thesis using start by simp
  qed
qed

lemma act_preserves:
  fixes P :: "AdbConnectionState \<Rightarrow> bool" and R :: "AdbConnectionState \<Rightarrow> string \<Rightarrow> bool"
  assumes start: "P (snd c)"
    and rule: "case agent_buf c a of None \<Rightarrow> True | Some buf \<Rightarrow> R (snd c) buf"
    and P_stop: "\<And>s. P s \<Longrightarrow> P (StopDebuggerThreads s)"
    and R_stop: "\<And>s buf. R s buf \<Longrightarrow> R (StopDebuggerThreads s) buf"
    and P_log: "\<And>s. P s \<Longrightarrow> P (emit (Log ERROR) s)"
    and P_setup: "\<And>s sock atts r s'. P s \<Longrightarrow> SetupAdbConnection s sock atts = (r, s') \<Longrightarrow> P s'"
    and P_agent: "\<And>s e k s'. P s \<Longrightarrow> agent_control_sock_POLLIN s e = (k, s') \<Longrightarrow>
        (\<And>d buf. recv_res e = RecvData d \<Longrightarrow> recv_agent_buf (buf_garbage e) d = Some buf
            \<Longrightarrow> R s buf) \<Longrightarrow> P s'"
    and P_control: "\<And>s e k s'. P s \<Longrightarrow> control_sock_POLLIN s e = (k, s') \<Longrightarrow> P s'"
    and P_hangup: "\<And>s k s'. P s \<Longrightarrow> adb_connection_socket s = -1 \<Longrightarrow>
        control_sock_POLLRDHUP s = (k, s') \<Longrightarrow> P s'"
    and P_adb: "\<And>s e k s'. P s \<Longrightarrow> adb_socket_POLLIN s e = (k, s') \<Longrightarrow> P s'"
    and P_publish: "\<And>s t d g r s'. P s \<Longrightarrow> PublishDdmData s t d g r = Some s' \<Longrightarrow> P s'"
  shows "P (snd (act c a))"
proof (cases a)
  case (Publish type data garbage res)
  show ?thesis
  proof (cases "PublishDdmData (snd c) type data garbage res")
    case None
    then show ?thesis using start Publish by (simp add: act_def)
  next
    case (Some s')
    from P_publish [OF start Some] show ?thesis
      using Publish Some by (simp add: act_def)
  qed
next
  case (LoopStep e)
  obtain p s where c: "c = (p, s)" by (cases c)
  define s0 where "s0 = observe_stop e s"
  have s0: "P s0" using start c P_stop [of s]
    by (simp add: s0_def observe_stop_def)
  show ?thesis
  proof (cases p)
    case (Stopped r)
    then show ?thesis using start c LoopStep by (simp add: act_def RunPollLoop_step_def)
  next
    case OuterLoop
    show ?thesis
    proof (cases "SetupAdbConnection s0 (socket_fd e) (connect_attempts e)")
      case (Pair r s1)
      have s1: "P s1" by (rule P_setup [OF s0 Pair])
      then have "P (emit (Log ERROR) s1)" by (rule P_log)
      then show ?thesis using s0 s1 c LoopStep OuterLoop Pair
        by (auto simp: act_def RunPollLoop_step_def Let_def s0_def [symmetric]
            split: option.splits)
    qed
  next
    case InnerLoop
    show ?thesis
    proof (cases "\<not> shutting_down s0 \<and> control_sock s0 \<noteq> -1")
      case False
      then show ?thesis using s0 c LoopStep InnerLoop
        by (auto simp: act_def RunPollLoop_step_def Let_def s0_def [symmetric])
    next
      case True
      obtain k s1 where body: "RunPollLoop_body s0 e = (k, s1)"
        by (cases "RunPollLoop_body s0 e")
      have "P s1"
      proof (rule body_preserves [where P = P and R = R,
            OF body s0 _ P_log P_agent P_control P_hangup P_adb])
        fix d buf
        assume "\<not> poll_ret e < 0"
          and "FlagsSet (poll_revents (if agent_loaded s0 then local_agent_control_sock s0 else -1)
                        (agent_control_revents e)) POLLIN"
          and "recv_res e = RecvData d" and "recv_agent_buf (buf_garbage e) d = Some buf"
        then have "agent_buf c a = Some buf"
          using True c LoopStep InnerLoop
          by (simp add: agent_buf_def Let_def s0_def [symmetric])
        then have "R s buf" using rule c by simp
        then show "R s0 buf"
          using R_stop [of s buf] by (simp add: s0_def observe_stop_def)
      qed
      then show ?thesis using True body c LoopStep InnerLoop
        by (auto simp: act_def RunPollLoop_step_def Let_def s0_def [symmetric] split: ctl.splits)
    qed
  qed
qed

lemma run_preserves:
  fixes P :: "AdbConnectionState \<Rightarrow> bool" and R :: "AdbConnectionState \<Rightarrow> string \<Rightarrow> bool"
  assumes start: "P s"
    and rule: "agent_obeys R (OuterLoop, s) as"
    and P_stop: "\<And>s. P s \<Longrightarrow> P (StopDebuggerThreads s)"
    and R_stop: "\<And>s buf. R s buf \<Longrightarrow> R (StopDebuggerThreads s) buf"
    and P_log: "\<And>s. P s \<Longrightarrow> P (emit (Log ERROR) s)"
    and P_setup: "\<And>s sock atts r s'. P s \<Longrightarrow> SetupAdbConnection s sock atts = (r, s') \<Longrightarrow> P s'"
    and P_agent: "\<And>s e k s'. P s \<Longrightarrow> agent_control_sock_POLLIN s e = (k, s') \<Longrightarrow>
        (\<And>d buf. recv_res e = RecvData d \<Longrightarrow> recv_agent_buf (buf_garbage e) d = Some buf
            \<Longrightarrow> R s buf) \<Longrightarrow> P s'"
    and P_control: "\<And>s e k s'. P s \<Longrightarrow> control_sock_POLLIN s e = (k, s') \<Longrightarrow> P s'"
    and P_hangup: "\<And>s k s'. P s \<Longrightarrow> adb_connection_socket s = -1 \<Longrightarrow>
        control_sock_POLLRDHUP s = (k, s') \<Longrightarrow> P s'"
    and P_adb: "\<And>s e k s'. P s \<Longrightarrow> adb_socket_POLLIN s e = (k, s') \<Longrightarrow> P s'"
    and P_publish: "\<And>s t d g r s'. P s \<Longrightarrow> PublishDdmData s t d g r = Some s' \<Longrightarrow> P s'"
  shows "P (snd (run s as))"
proof -
  have "P (snd c) \<Longrightarrow> agent_obeys R c as \<Longrightarrow> P (snd (foldl act c as))" for c
  proof (induction as arbitrary: c)
    case Nil
    then show ?case by simp
  next
    case (Cons a as)
    have "P (snd (act c a))"
      by (rule act_preserves [where P = P and R = R and c = c and a = a,
            OF _ _ P_stop R_stop P_log P_setup P_agent P_control P_hangup P_adb P_publish])
         (use Cons.prems in simp_all)
    then show ?case using Cons.prems Cons.IH [of "act c a"] by simp
  qed
  from this [of "(OuterLoop, s)"] start rule show ?thesis by (simp add: run_def)
qed

section \<open>Invariants of the loop\<close>


subsection \<open>Descriptors sent, connection held\<close>


section \<open>The ids of the packets\<close>

lemma bit_31_set: "bit (w OR 0x80000000 :: 32 word) 31"
proof -
  have "(0x80000000 :: 32 word) = push_bit 31 1" by simp
  then show ?thesis by (simp only: bit_or_iff bit_push_bit_iff) simp
qed

lemma ddm_ids_in_sequence_frame:
  assumes "next_ddm_id s' = next_ddm_id s"
    and "ddm_packets (effects s') = ddm_packets (effects s)"
    and "ddm_ids_in_sequence s"
  shows "ddm_ids_in_sequence s'"
  using assms unfolding ddm_ids_in_sequence_def ddm_ids_def by (simp del: upt_Suc)

lemma started_ddm_ids: "ddm_ids_in_sequence (started name a b c d has_mem sent_mem)"
  by (simp add: ddm_ids_in_sequence_def ddm_ids_def started_def StartDebuggerThreads_def
      AdbConnectionState_new_def)

lemma publish_ddm_ids:
  assumes "ddm_ids_in_sequence s" and "PublishDdmData s t d g r = Some s'"
  shows "ddm_ids_in_sequence s'"
proof (cases "adb_connection_socket s = -1")
  case True
  have "write_event_count s \<noteq> 0"
    using assms(2) by (auto simp: PublishDdmData_def ScopedEventFdLock_def split: if_splits)
  from publish_without_connection [OF True this, of t d g r] assms(2)
  have "s' = s\<lparr>effects := effects s @ [EventFdRead, Log WARNING, EventFdWrite]\<rparr>" by simp
  then show ?thesis using assms(1) by - (rule ddm_ids_in_sequence_frame [of s' s], simp_all)
next
  case False
  have free: "write_event_count s \<noteq> 0"
    using assms(2) by (auto simp: PublishDdmData_def ScopedEventFdLock_def split: if_splits)
  obtain p where p: "ddm_packets (effects s') = ddm_packets (effects s) @ [p]"
      "be32 p 4 = (next_ddm_id s OR 0x80000000)" "next_ddm_id s' = next_ddm_id s + 1"
    using publish_connected [OF free False, of t d g r] assms(2) by auto
  define n where "n = length (ddm_ids s)"
  have ids: "ddm_ids s' = ddm_ids s @ [next_ddm_id s OR 0x80000000]"
    using p(1,2) by (simp add: ddm_ids_def)
  have nxt: "next_ddm_id s = 1 + word_of_nat n"
    and old: "ddm_ids s = map (\<lambda>k. 0x80000000 OR word_of_nat k) [1..<Suc n]"
    using assms(1) by (simp_all add: ddm_ids_in_sequence_def n_def del: upt_Suc)
  have len: "length (ddm_ids s') = Suc n" using ids by (simp add: n_def)
  have "next_ddm_id s' = 1 + word_of_nat (Suc n)" using p(3) nxt by simp
  moreover have "ddm_ids s' = map (\<lambda>k. 0x80000000 OR word_of_nat k) [1..<Suc (Suc n)]"
  proof -
    have "next_ddm_id s OR 0x80000000 = 0x80000000 OR word_of_nat (Suc n)"
      using nxt by (simp add: or.commute)
    then have "ddm_ids s' = map (\<lambda>k. 0x80000000 OR word_of_nat k) [1..<Suc n]
                 @ [0x80000000 OR word_of_nat (Suc n)]"
      using ids old by (simp del: upt_Suc)
    also have "\<dots> = map (\<lambda>k. 0x80000000 OR word_of_nat k) ([1..<Suc n] @ [Suc n])"
      by simp
    also have "[1..<Suc n] @ [Suc n] = [1..<Suc (Suc n)]" by simp
    finally show ?thesis .
  qed
  ultimately show ?thesis unfolding ddm_ids_in_sequence_def len by blast
qed

lemma agent_obeys_anything: "agent_obeys (\<lambda>s buf. True) c as"
  by (induction as arbitrary: c) (simp_all split: option.splits)

text \<open>None of the pieces of the loop touches the id counter or writes a packet.\<close>

lemma ddm_frame_simps [simp]:
  "next_ddm_id (emit x s) = next_ddm_id s"
  "next_ddm_id (dcheck l cond s) = next_ddm_id s"
  "ddm_packets (effects (dcheck l cond s)) = ddm_packets (effects s)"
  "next_ddm_id (unique_fd_close fd s) = next_ddm_id s"
  "ddm_packets (effects (unique_fd_close fd s)) = ddm_packets (effects s)"
  "next_ddm_id (reset_control_sock s) = next_ddm_id s"
  "ddm_packets (effects (reset_control_sock s)) = ddm_packets (effects s)"
  "next_ddm_id (ScopedEventFdLock_release lk s) = next_ddm_id s"
  "ddm_packets (effects (ScopedEventFdLock_release lk s)) = ddm_packets (effects s)"
  by (simp_all add: prim_defs)

lemma ddm_frame_emit [simp]:
  "ddm_packets (effects (emit (Log sev) s)) = ddm_packets (effects s)"
  "ddm_packets (effects (emit (AttachAgent arg) s)) = ddm_packets (effects s)"
  by (simp_all add: emit_def)

lemma ScopedEventFdLock_ddm:
  "ScopedEventFdLock s = Some (lk, s') \<Longrightarrow>
     next_ddm_id s' = next_ddm_id s \<and> ddm_packets (effects s') = ddm_packets (effects s)"
  by (auto simp: ScopedEventFdLock_def emit_def split: if_splits)

lemma SendAgentFds_ddm:
  "SendAgentFds s e = Some s' \<Longrightarrow>
     next_ddm_id s' = next_ddm_id s \<and> ddm_packets (effects s') = ddm_packets (effects s)"
  by (auto simp: SendAgentFds_def Let_def emit_def split: if_splits)

lemma CloseFds_ddm:
  "CloseFds s = Some s' \<Longrightarrow>
     next_ddm_id s' = next_ddm_id s \<and> ddm_packets (effects s') = ddm_packets (effects s)"
  by (auto simp: CloseFds_def reset_adb_connection_socket_def emit_def
      dest!: ScopedEventFdLock_ddm split: option.splits if_splits)

lemma ReadFdFromAdb_ddm:
  "ReadFdFromAdb s e = (fd, s') \<Longrightarrow>
     next_ddm_id s' = next_ddm_id s \<and> ddm_packets (effects s') = ddm_packets (effects s)"
  by (auto simp: ReadFdFromAdb_def split: if_splits)

lemma agent_control_sock_POLLIN_ddm:
  "agent_control_sock_POLLIN s e = (k, s') \<Longrightarrow>
     next_ddm_id s' = next_ddm_id s \<and> ddm_packets (effects s') = ddm_packets (effects s)"
  by (auto simp: agent_control_sock_POLLIN_def Let_def
      dest!: SendAgentFds_ddm CloseFds_ddm
      split: if_splits recv_result.splits option.splits)

lemma control_sock_POLLIN_ddm:
  "control_sock_POLLIN s e = (k, s') \<Longrightarrow>
     next_ddm_id s' = next_ddm_id s \<and> ddm_packets (effects s') = ddm_packets (effects s)"
  by (auto simp: control_sock_POLLIN_def Let_def
      dest!: SendAgentFds_ddm ScopedEventFdLock_ddm ReadFdFromAdb_ddm
      split: if_splits option.splits prod.splits)

lemma control_sock_POLLRDHUP_ddm:
  "control_sock_POLLRDHUP s = (k, s') \<Longrightarrow>
     next_ddm_id s' = next_ddm_id s \<and> ddm_packets (effects s') = ddm_packets (effects s)"
  by (auto simp: control_sock_POLLRDHUP_def)

lemma adb_socket_POLLIN_ddm:
  "adb_socket_POLLIN s e = (k, s') \<Longrightarrow>
     next_ddm_id s' = next_ddm_id s \<and> ddm_packets (effects s') = ddm_packets (effects s)"
  by (auto simp: adb_socket_POLLIN_def Let_def
      dest!: SendAgentFds_ddm split: if_splits option.splits)

lemma run_ddm_ids:
  assumes "ddm_ids_in_sequence s"
  shows "ddm_ids_in_sequence (snd (run s as))"
proof (rule run_preserves [where P = ddm_ids_in_sequence and R = "\<lambda>s buf. True",
      OF assms agent_obeys_anything])
  fix s assume "ddm_ids_in_sequence s"
  then show "ddm_ids_in_sequence (StopDebuggerThreads s)"
    by - (rule ddm_ids_in_sequence_frame [of _ s], simp_all add: StopDebuggerThreads_def)
next
  fix s :: AdbConnectionState and buf :: string
  show True ..
next
  fix s assume "ddm_ids_in_sequence s"
  then show "ddm_ids_in_sequence (emit (Log ERROR) s)"
    by - (rule ddm_ids_in_sequence_frame [of _ s], simp_all)
next
  fix s sock atts r s'
  assume "ddm_ids_in_sequence s" and "SetupAdbConnection s sock atts = (r, s')"
  then show "ddm_ids_in_sequence s'"
    using SetupAdbConnection_frame [of s sock atts r s' 0]
    by - (rule ddm_ids_in_sequence_frame [of s' s], simp_all)
next
  fix s e k s'
  assume "ddm_ids_in_sequence s" and "agent_control_sock_POLLIN s e = (k, s')"
  then show "ddm_ids_in_sequence s'"
    using agent_control_sock_POLLIN_ddm [of s e k s']
    by - (rule ddm_ids_in_sequence_frame [of s' s], simp_all)
next
  fix s e k s'
  assume "ddm_ids_in_sequence s" and "control_sock_POLLIN s e = (k, s')"
  then show "ddm_ids_in_sequence s'"
    using control_sock_POLLIN_ddm [of s e k s']
    by - (rule ddm_ids_in_sequence_frame [of s' s], simp_all)
next
  fix s k s'
  assume "ddm_ids_in_sequence s" and "control_sock_POLLRDHUP s = (k, s')"
  then show "ddm_ids_in_sequence s'"
    using control_sock_POLLRDHUP_ddm [of s k s']
    by - (rule ddm_ids_in_sequence_frame [of s' s], simp_all)
next
  fix s e k s'
  assume "ddm_ids_in_sequence s" and "adb_socket_POLLIN s e = (k, s')"
  then show "ddm_ids_in_sequence s'"
    using adb_socket_POLLIN_ddm [of s e k s']
    by - (rule ddm_ids_in_sequence_frame [of s' s], simp_all)
next
  fix s t d g r s'
  assume "ddm_ids_in_sequence s" and "PublishDdmData s t d g r = Some s'"
  then show "ddm_ids_in_sequence s'" by (rule publish_ddm_ids)
qed

text \<open>
  C4. \<^verbatim>\<open>NextDdmId\<close> returns the counter with bit 31 set and advances the counter by one; the
  counter starts at 1. Whatever the two flags that the constructor leaves uninitialised
  hold, and whatever the poll thread and the publishers do from the start of the poll thread
  on, the \<open>k\<close>-th packet emitted carries the id \<open>0x80000000 | k\<close> (\<open>k\<close> as a
  32-bit number: a counter that wraps into bit 31 is covered by the OR), and every id emitted
  has bit 31 set.
\<close>

theorem ddm_id_sequence:
  "fst (NextDdmId s) = next_ddm_id s OR 0x80000000
   \<and> next_ddm_id (snd (NextDdmId s)) = next_ddm_id s + 1
   \<and> bit (fst (NextDdmId s)) 31
   \<and> next_ddm_id (started name a b c d has_mem sent_mem) = 1
   \<and> ddm_ids (snd (run (started name a b c d has_mem sent_mem) as))
       = map (\<lambda>k. 0x80000000 OR word_of_nat k)
           [1..<Suc (length (ddm_ids (snd (run (started name a b c d has_mem sent_mem) as))))]
   \<and> (\<forall>w\<in>set (ddm_ids (snd (run (started name a b c d has_mem sent_mem) as))). bit w 31)"
proof -
  define ids where "ids = ddm_ids (snd (run (started name a b c d has_mem sent_mem) as))"
  define n where "n = length ids"
  have "ddm_ids_in_sequence (snd (run (started name a b c d has_mem sent_mem) as))"
    by (rule run_ddm_ids [OF started_ddm_ids])
  then have ids: "ids = map (\<lambda>k. 0x80000000 OR word_of_nat k) [1..<Suc n]"
    unfolding ddm_ids_in_sequence_def ids_def [symmetric] n_def [symmetric] by blast
  have bits: "\<forall>w\<in>set ids. bit w 31"
  proof
    fix w assume "w \<in> set ids"
    then obtain k where "w = 0x80000000 OR word_of_nat k"
      unfolding ids by auto
    then show "bit w 31" using bit_31_set [of "word_of_nat k"] by (simp add: or.commute)
  qed
  have 1: "fst (NextDdmId s) = next_ddm_id s OR 0x80000000"
    and 2: "next_ddm_id (snd (NextDdmId s)) = next_ddm_id s + 1"
    by (simp_all add: NextDdmId_def)
  have 3: "bit (fst (NextDdmId s)) 31" unfolding 1 by (rule bit_31_set)
  have 4: "next_ddm_id (started name a b c d has_mem sent_mem) = 1"
    by (simp add: started_def StartDebuggerThreads_def AdbConnectionState_new_def)
  show ?thesis
    using 1 2 3 4 ids bits unfolding n_def ids_def by blast
qed

theorem ddm_id_sequence_witness:
  "ddm_ids (snd (run sample_broker publishing_session)) = [0x80000001, 0x80000002]
   \<and> bit (0x80000001 :: 32 word) 31 \<and> bit (0x80000002 :: 32 word) 31
   \<and> length (ddm_packets (effects (snd (run sample_broker publishing_session)))) = 2"
proof -
  have h: "ddm_ids (snd (run sample_broker publishing_session)) = [0x80000001, 0x80000002]"
    by code_simp
  have l: "length (ddm_packets (effects (snd (run sample_broker publishing_session)))) = 2"
    by code_simp
  have "\<forall>w\<in>set (ddm_ids (snd (run sample_broker publishing_session))). bit w 31"
    using ddm_id_sequence [where name = "''libjdwp.so''" and a = 3 and b = 4 and c = 11
        and d = 12 and has_mem = False and sent_mem = False and as = publishing_session]
    unfolding sample_broker_def [symmetric] by blast
  then show ?thesis
    using l unfolding h by simp
qed

section \<open>The flags and the connection\<close>






end
